theory Spec2Isabelle
  imports Main
begin

section \<open>Data model\<close>

text \<open>
  The values a scan verdict's \<open>is_nsfw\<close> field can hold: the orchestrator tests it
  with \<^verbatim>\<open>typeof result.is_nsfw !== "boolean"\<close>, so the model keeps the JavaScript
  type of the value.
\<close>

datatype jsval = JUndefined | JNull | JBool bool | JNum int | JStr string

text \<open>
  A thrown value. Every collaborator throws an error object: \<^verbatim>\<open>db.js\<close> throws
  \<^verbatim>\<open>new Error(...)\<close> or the (truthy) error of the store, the storage and scanner
  clients reject with error objects. Handlers only read \<^verbatim>\<open>err.message\<close>.
\<close>

datatype thrown = Error (message: string)

text \<open>
  A media job, as built in \<^verbatim>\<open>routes/media.js\<close> and read back from the job store.
  \<open>None\<close> stands for \<^verbatim>\<open>undefined\<close>/\<^verbatim>\<open>null\<close>.
\<close>

record job =
  j_id :: string
  j_user_id :: string
  j_file_name :: string
  j_file_size :: int
  j_sha256_hash :: string
  j_mime_type :: "string option"
  j_linked_to_id :: string
  j_linked_to_type :: "string option"
  j_url :: "string option"

text \<open>One element of the result list of a scan backend.\<close>

record verdict =
  r_job_id :: string
  r_is_nsfw :: jsval
  r_width :: "int option"
  r_height :: "int option"
  r_duration :: "int option"
  r_error :: "string option"

text \<open>The argument of \<^verbatim>\<open>logSystemEvent\<close>, with its defaults filled in.\<close>

record log_event =
  l_action :: string
  l_description :: "string option"
  l_error_name :: "string option"
  l_target_id :: "string option"
  l_metadata :: "(string \<times> string option) list"

record blocked_hash =
  b_hash_value :: string
  b_hash_type :: string
  b_detected_type :: string
  b_source_type :: string
  b_detected_by :: string
  b_file_key :: string

text \<open>
  The value passed as \<^verbatim>\<open>toBucket\<close>: a bucket name, or a property that the lookup in
  \<^verbatim>\<open>bucketMap\<close>, a plain object, found on \<^verbatim>\<open>Object.prototype\<close> (a built-in function,
  or the prototype itself for \<^verbatim>\<open>__proto__\<close>).
\<close>

datatype bucket_value = BucketName string | InheritedProperty string

record move_args =
  mv_fromKey :: string
  mv_toBucket :: bucket_value
  mv_toKey :: string

record media_item =
  m_job_id :: string
  m_user_id :: string
  m_file_name :: string
  m_linked_to_id :: string
  m_linked_to_type :: "string option"
  m_sha256_hash :: string
  m_width :: "int option"
  m_height :: "int option"
  m_duration :: "int option"
  m_mime_type :: "string option"
  m_file_size :: int
  m_moderation_status :: string

text \<open>The payload of the remote scan function, built by \<^verbatim>\<open>prepareJobs\<close>.\<close>

record payload =
  p_type :: string
  p_jobs :: "(string \<times> string option) list"

text \<open>
  What \<^verbatim>\<open>fn.remote\<close> resolves to: a falsy value, an object whose \<open>results\<close> is not
  an array, or an object with a result list. An element of the list is a verdict
  object, or \<open>None\<close> for \<^verbatim>\<open>null\<close> or \<^verbatim>\<open>undefined\<close>: \<^verbatim>\<open>Array.isArray\<close> does not look
  at the elements.
\<close>

datatype scan_response = Falsy | NotArray | Results "verdict option list"

datatype remote_outcome = Rejects thrown | Resolves scan_response

text \<open>One element of \<^verbatim>\<open>data.responses\<close> of the vision API.\<close>

record vision_response =
  v_error :: "string option"
  v_safeSearchAnnotation :: "(string \<times> string \<times> string) option"

datatype axios_outcome = AxiosRejects thrown | AxiosData "vision_response list option"

text \<open>What \<^verbatim>\<open>generateSignedGetUrl\<close> does: it rejects, or resolves to a URL (or to nothing).\<close>

datatype sign_outcome = SignRejects thrown | SignResolves "string option"

section \<open>Collaborator calls and the world\<close>

text \<open>
  Every call that leaves the orchestrator is recorded, with its outcome, in a trace.
  \<open>None\<close> as an outcome means that the call returned; \<open>Some err\<close> that it threw.
  \<^verbatim>\<open>logSystemEvent\<close> and \<^verbatim>\<open>restrictUserMediaUploads\<close> carry no outcome: in
  \<^verbatim>\<open>db.js\<close> both print the error of the store on the console and return.
  \<^verbatim>\<open>moveObjectWithinBuckets\<close> (a copy followed by a delete) is one call, which returns
  or throws. \<open>Sleep\<close> is the timeout awaited between two attempts of a scan.
  \<open>UnhandledRejection\<close> is no call: it records that a promise of the program was rejected
  while nothing awaited it or attached a handler to it.
\<close>

datatype event =
    RemoteCall payload remote_outcome
  | Sleep nat
  | VisionPost "string option list" axios_outcome
  | LogSystemEvent log_event
  | AddBlockedHash blocked_hash "thrown option"
  | RestrictUserMediaUploads string
  | MoveObjectWithinBuckets move_args "thrown option"
  | CreateMediaItem media_item "thrown option"
  | MarkJobsAsComplete "job list" "thrown option"
  | GenerateSignedGetUrl string sign_outcome
  | UnhandledRejection thrown

text \<open>
  The outside world answers each request as a function of everything that happened
  before it: the remote scan function, the vision API, the object store, the
  tables of the relational store, the URL signer and the clock.
\<close>

record world =
  remote :: "event list \<Rightarrow> payload \<Rightarrow> remote_outcome"
  axios_post :: "event list \<Rightarrow> string option list \<Rightarrow> axios_outcome"
  s3_move :: "event list \<Rightarrow> move_args \<Rightarrow> thrown option"
  insert_blocked_hash :: "event list \<Rightarrow> blocked_hash \<Rightarrow> thrown option"
  insert_media :: "event list \<Rightarrow> media_item \<Rightarrow> thrown option"
  update_complete :: "event list \<Rightarrow> string list \<Rightarrow> thrown option"
  sign_url :: "event list \<Rightarrow> string \<Rightarrow> sign_outcome"
  date_now :: "event list \<Rightarrow> int"

section \<open>Strings\<close>

definition startsWith :: "string \<Rightarrow> string \<Rightarrow> bool" where
  "startsWith s p = (take (length p) s = p)"

fun string_of_nat :: "nat \<Rightarrow> string" where
  "string_of_nat n =
     (if n < 10 then [char_of (48 + n)]
      else string_of_nat (n div 10) @ [char_of (48 + n mod 10)])"

declare string_of_nat.simps [simp del]

section \<open>The job store (db.js)\<close>

text \<open>
  \<^verbatim>\<open>createMediaItem\<close>: rejects an item with a falsy required field, and a video
  without a duration, before it reaches the table.
\<close>

definition falsy_str :: "string option \<Rightarrow> bool" where
  "falsy_str s = (s = None \<or> s = Some [])"

definition falsy_num :: "int option \<Rightarrow> bool" where
  "falsy_num n = (n = None \<or> n = Some 0)"

definition createMediaItem :: "world \<Rightarrow> event list \<Rightarrow> media_item \<Rightarrow> thrown option" where
  "createMediaItem w h mediaItem =
     (if m_job_id mediaItem = [] \<or> m_user_id mediaItem = [] \<or> m_linked_to_id mediaItem = []
         \<or> falsy_str (m_linked_to_type mediaItem) \<or> m_file_name mediaItem = []
         \<or> m_file_size mediaItem = 0 \<or> m_sha256_hash mediaItem = []
         \<or> falsy_str (m_mime_type mediaItem)
         \<or> falsy_num (m_width mediaItem) \<or> falsy_num (m_height mediaItem)
      then Some (Error ''Invalid media item data'')
      else if m_width mediaItem = None \<or> m_height mediaItem = None
      then Some (Error ''Missing media dimensions'')
      else if (case m_mime_type mediaItem of None \<Rightarrow> False | Some mime \<Rightarrow> startsWith mime ''video'')
              \<and> m_duration mediaItem = None
      then Some (Error ''Missing duration for video media item'')
      else insert_media w h mediaItem)"

definition addBlockedHash :: "world \<Rightarrow> event list \<Rightarrow> blocked_hash \<Rightarrow> thrown option" where
  "addBlockedHash w h b =
     (if b_hash_value b = [] \<or> b_hash_type b = [] \<or> b_detected_type b = []
      then Some (Error ''Missing required fields for blocked hash'')
      else insert_blocked_hash w h b)"

definition markJobsAsComplete :: "world \<Rightarrow> event list \<Rightarrow> job list \<Rightarrow> thrown option" where
  "markJobsAsComplete w h jobs =
     (if length jobs = 0 then None else update_complete w h (map j_id jobs))"

section \<open>The per-image backend (google\_vision\_images\_scanner.js)\<close>

definition likelihoods :: "string list" where
  "likelihoods = [''POSSIBLE'', ''LIKELY'', ''VERY_LIKELY'']"

text \<open>
  The callback of \<^verbatim>\<open>data.responses.map\<close>, applied to a response and to \<^verbatim>\<open>jobs[i]\<close>
  (\<open>None\<close> when the index is out of range, where reading \<^verbatim>\<open>job.id\<close> throws).
\<close>

definition visionVerdict :: "vision_response \<Rightarrow> job option \<Rightarrow> thrown + verdict" where
  "visionVerdict res job =
     (case v_error res of
        Some e \<Rightarrow>
          (case job of
             None \<Rightarrow> Inl (Error ''Cannot read properties of undefined (reading 'id')'')
           | Some j \<Rightarrow> Inr \<lparr>r_job_id = j_id j, r_is_nsfw = JBool False, r_width = None,
                            r_height = None, r_duration = None, r_error = Some e\<rparr>)
      | None \<Rightarrow>
          (case v_safeSearchAnnotation res of
             None \<Rightarrow> Inl (Error ''Cannot read properties of undefined (reading 'adult')'')
           | Some (adult, violence, racy) \<Rightarrow>
               (case job of
                  None \<Rightarrow> Inl (Error ''Cannot read properties of undefined (reading 'id')'')
                | Some j \<Rightarrow>
                    Inr \<lparr>r_job_id = j_id j,
                         r_is_nsfw = JBool (\<exists>l \<in> set likelihoods. l \<in> set [adult, violence, racy]),
                         r_width = None, r_height = None, r_duration = None,
                         r_error = None\<rparr>)))"

fun visionMap :: "vision_response list \<Rightarrow> job list \<Rightarrow> thrown + verdict list" where
  "visionMap [] jobs = Inr []"
| "visionMap (res # rest) jobs =
     (case visionVerdict res (case jobs of [] \<Rightarrow> None | j # _ \<Rightarrow> Some j) of
        Inl err \<Rightarrow> Inl err
      | Inr v \<Rightarrow>
          (case visionMap rest (drop 1 jobs) of
             Inl err \<Rightarrow> Inl err
           | Inr vs \<Rightarrow> Inr (v # vs)))"

definition safeSearchFromUrls ::
  "world \<Rightarrow> event list \<Rightarrow> job list \<Rightarrow> (thrown + verdict list) \<times> event list" where
  "safeSearchFromUrls w h jobs =
     (let requests = map j_url jobs;
          out = axios_post w h requests
      in (case out of
            AxiosRejects err \<Rightarrow> Inl err
          | AxiosData None \<Rightarrow> Inl (Error ''Cannot read properties of undefined (reading 'map')'')
          | AxiosData (Some responses) \<Rightarrow> visionMap responses jobs,
          [VisionPost requests out]))"

section \<open>The scan orchestrator (media\_scanner.js)\<close>

definition MAX_RETRIES :: nat where
  "MAX_RETRIES = 3"

definition RETRY_DELAY_MS :: nat where
  "RETRY_DELAY_MS = 3000"

definition bucketMap :: "(string \<times> string) list" where
  "bucketMap =
     [(''post'', ''posts-media''),
      (''opportunity'', ''opportunities-media''),
      (''chat_media'', ''chats-media''),
      (''profile_picture'', ''users-media''),
      (''profile_cover'', ''users-media''),
      (''license_certification'', ''talent-profiles-media''),
      (''education'', ''talent-profiles-media''),
      (''project'', ''talent-profiles-media''),
      (''award_achievement'', ''talent-profiles-media''),
      (''work_experience'', ''talent-profiles-media''),
      (''volunteer_experience'', ''talent-profiles-media''),
      (''testimonial'', ''talent-profiles-media''),
      (''publication'', ''talent-profiles-media'')]"

definition prepareJobs :: "job list \<Rightarrow> string \<Rightarrow> payload" where
  "prepareJobs jobs type = \<lparr>p_type = type, p_jobs = map (\<lambda>job. (j_id job, j_url job)) jobs\<rparr>"

text \<open>
  One attempt of \<^verbatim>\<open>withRetry\<close>, the block of its \<^verbatim>\<open>try\<close>: a rejected call and a
  response without a result list both end in the \<^verbatim>\<open>catch\<close>.
\<close>

definition attemptResult :: "remote_outcome \<Rightarrow> thrown + verdict option list" where
  "attemptResult out =
     (case out of
        Rejects err \<Rightarrow> Inl err
      | Resolves Falsy \<Rightarrow> Inl (Error ''Bad response from scanner'')
      | Resolves NotArray \<Rightarrow> Inl (Error ''Bad response from scanner'')
      | Resolves (Results rs) \<Rightarrow> Inr rs)"

text \<open>
  \<^verbatim>\<open>withRetry\<close>: the loop \<^verbatim>\<open>while (true)\<close> with its attempt counter. It returns
  the result list or the error of the last attempt, and the calls it made.
\<close>

function withRetry ::
  "world \<Rightarrow> event list \<Rightarrow> payload \<Rightarrow> nat \<Rightarrow>
   (thrown + verdict option list) \<times> event list" where
  "withRetry w h pl attempt =
     (let out = remote w h pl;
          call = RemoteCall pl out
      in case attemptResult out of
           Inr rs \<Rightarrow> (Inr rs, [call])
         | Inl err \<Rightarrow>
             if Suc attempt \<ge> MAX_RETRIES then (Inl err, [call])
             else (case withRetry w (h @ [call, Sleep RETRY_DELAY_MS]) pl (Suc attempt) of
                     (res, evs) \<Rightarrow> (res, call # Sleep RETRY_DELAY_MS # evs)))"
  by pat_completeness auto
termination
  by (relation "measure (\<lambda>(w, h, pl, attempt). MAX_RETRIES - attempt)") auto

declare withRetry.simps [simp del]

text \<open>
  The destination bucket of a cleared object, \<^verbatim>\<open>bucketMap[linked_to_type] || 'default-bucket'\<close>.
  \<^verbatim>\<open>bucketMap\<close> is an object literal, so the lookup also finds the properties it inherits
  from \<^verbatim>\<open>Object.prototype\<close>; all of them are truthy, and the fallback is not taken for
  them. An absent type is looked up under the key \<^verbatim>\<open>undefined\<close> or \<^verbatim>\<open>null\<close>, which is
  neither an own nor an inherited property.
\<close>

definition objectPrototype :: "string list" where
  "objectPrototype =
     [''constructor'', ''__defineGetter__'', ''__defineSetter__'', ''hasOwnProperty'',
      ''__lookupGetter__'', ''__lookupSetter__'', ''isPrototypeOf'',
      ''propertyIsEnumerable'', ''toString'', ''valueOf'', ''__proto__'',
      ''toLocaleString'']"

definition getTargetBucket :: "string option \<Rightarrow> bucket_value" where
  "getTargetBucket linked_to_type =
     (case linked_to_type of
        None \<Rightarrow> BucketName ''default-bucket''
      | Some t \<Rightarrow>
          (case map_of bucketMap t of
             Some b \<Rightarrow> BucketName b
           | None \<Rightarrow>
               if t \<in> set objectPrototype then InheritedProperty t
               else BucketName ''default-bucket''))"

text \<open>
  The bucket inside a template literal: a built-in function prints as its native source
  text, the prototype object as \<^verbatim>\<open>[object Object]\<close>.
\<close>

definition bucketText :: "bucket_value \<Rightarrow> string" where
  "bucketText b =
     (case b of
        BucketName name \<Rightarrow> name
      | InheritedProperty k \<Rightarrow>
          if k = ''__proto__'' then ''[object Object]''
          else ''function '' @ (if k = ''constructor'' then ''Object'' else k)
                 @ ''() { [native code] }'')"

text \<open>
  The destination key keeps the file name for the types of \<^verbatim>\<open>prefixTypes\<close> and for a
  falsy type.
\<close>

definition prefixTypes :: "string list" where
  "prefixTypes = [''post'', ''opportunity'']"

definition toKey :: "job \<Rightarrow> string" where
  "toKey job =
     (case j_linked_to_type job of
        None \<Rightarrow> j_file_name job
      | Some t \<Rightarrow>
          if t \<in> set prefixTypes \<or> t = [] then j_file_name job
          else t @ ''/'' @ j_file_name job)"

definition errorLog :: "string \<Rightarrow> string \<Rightarrow> string \<Rightarrow> log_event" where
  "errorLog target description error_name =
     \<lparr>l_action = ''error'', l_description = Some description,
      l_error_name = Some error_name, l_target_id = Some target, l_metadata = []\<rparr>"

subsection \<open>The quarantine path\<close>

text \<open>
  Step 1. Building the argument reads \<^verbatim>\<open>job.mime_type.startsWith\<close> inside the
  \<^verbatim>\<open>try\<close>, so a job without a mime type fails here, before the call.
\<close>

definition blockedHashOf :: "job \<Rightarrow> string \<Rightarrow> blocked_hash" where
  "blockedHashOf job mime =
     \<lparr>b_hash_value = j_sha256_hash job, b_hash_type = ''sha256'',
      b_detected_type = ''nsfw'',
      b_source_type = (if startsWith mime ''video'' then ''video'' else ''image''),
      b_detected_by = ''media_scanner'', b_file_key = toKey job\<rparr>"

definition blockHashStep :: "world \<Rightarrow> event list \<Rightarrow> job \<Rightarrow> event list" where
  "blockHashStep w h job =
     (case j_mime_type job of
        None \<Rightarrow>
          [LogSystemEvent (errorLog (j_id job)
             (''Failed to add blocked hash for '' @ j_id job @ '': ''
                @ ''Cannot read properties of undefined (reading 'startsWith')'')
             ''blocked_hash_add_failed'')]
      | Some mime \<Rightarrow>
          (let out = addBlockedHash w h (blockedHashOf job mime)
           in AddBlockedHash (blockedHashOf job mime) out #
              (case out of
                 None \<Rightarrow> []
               | Some err \<Rightarrow>
                   [LogSystemEvent (errorLog (j_id job)
                      (''Failed to add blocked hash for '' @ j_id job @ '': '' @ message err)
                      ''blocked_hash_add_failed'')])))"

text \<open>Step 2. \<^verbatim>\<open>restrictUserMediaUploads\<close> reports a store error on the console only.\<close>

definition restrictStep :: "job \<Rightarrow> event list" where
  "restrictStep job = [RestrictUserMediaUploads (j_user_id job)]"

text \<open>Step 3. \<^verbatim>\<open>logSystemEvent\<close> never throws either.\<close>

definition logUnsafeStep :: "string \<Rightarrow> job \<Rightarrow> event list" where
  "logUnsafeStep type job =
     [LogSystemEvent
        \<lparr>l_action = ''unsafe_content_detected'',
         l_description = Some (''NSFW detected in '' @ butlast type @ '' with ID '' @ j_id job),
         l_error_name = None, l_target_id = Some (j_id job),
         l_metadata = [(''file_name'', Some (j_file_name job)),
                       (''user_id'', Some (j_user_id job)),
                       (''linked_to_type'', j_linked_to_type job)]\<rparr>]"

text \<open>Step 4.\<close>

definition quarantineArgs :: "job \<Rightarrow> move_args" where
  "quarantineArgs job =
     \<lparr>mv_fromKey = j_file_name job, mv_toBucket = BucketName ''quarantine'',
      mv_toKey = j_file_name job\<rparr>"

definition quarantineMoveStep :: "world \<Rightarrow> event list \<Rightarrow> job \<Rightarrow> event list" where
  "quarantineMoveStep w h job =
     (let out = s3_move w h (quarantineArgs job)
      in MoveObjectWithinBuckets (quarantineArgs job) out #
         (case out of
            None \<Rightarrow> []
          | Some err \<Rightarrow>
              [LogSystemEvent (errorLog (j_id job)
                 (''Failed to move NSFW item '' @ j_id job @ '' to quarantine: '' @ message err)
                 ''quarantine_move_failed'')]))"

definition quarantine :: "world \<Rightarrow> event list \<Rightarrow> string \<Rightarrow> job \<Rightarrow> event list" where
  "quarantine w h type job =
     (let e1 = blockHashStep w h job;
          e2 = restrictStep job;
          e3 = logUnsafeStep type job;
          e4 = quarantineMoveStep w (h @ e1 @ e2 @ e3) job
      in e1 @ e2 @ e3 @ e4)"

subsection \<open>The commit path\<close>

definition commitArgs :: "job \<Rightarrow> move_args" where
  "commitArgs job =
     \<lparr>mv_fromKey = j_file_name job, mv_toBucket = getTargetBucket (j_linked_to_type job),
      mv_toKey = toKey job\<rparr>"

definition mediaItemOf :: "job \<Rightarrow> verdict \<Rightarrow> media_item" where
  "mediaItemOf job result =
     \<lparr>m_job_id = j_id job, m_user_id = j_user_id job, m_file_name = toKey job,
      m_linked_to_id = j_linked_to_id job, m_linked_to_type = j_linked_to_type job,
      m_sha256_hash = j_sha256_hash job, m_width = r_width result,
      m_height = r_height result, m_duration = r_duration result,
      m_mime_type = j_mime_type job, m_file_size = j_file_size job,
      m_moderation_status = ''approved''\<rparr>"

text \<open>The flag is \<open>False\<close> where the source leaves the iteration with \<^verbatim>\<open>continue\<close>.\<close>

definition commit :: "world \<Rightarrow> event list \<Rightarrow> job \<Rightarrow> verdict \<Rightarrow> bool \<times> event list" where
  "commit w h job result =
     (let moved = s3_move w h (commitArgs job);
          e1 = MoveObjectWithinBuckets (commitArgs job) moved
      in case moved of
           Some err \<Rightarrow>
             (False,
              [e1, LogSystemEvent (errorLog (j_id job)
                     (''Failed to move media item for job '' @ j_id job @ '' to ''
                        @ bucketText (getTargetBucket (j_linked_to_type job)) @ '': ''
                        @ message err)
                     ''media_move_failed'')])
         | None \<Rightarrow>
             (let created = createMediaItem w (h @ [e1]) (mediaItemOf job result);
                  e2 = CreateMediaItem (mediaItemOf job result) created
              in case created of
                   Some err \<Rightarrow>
                     (False,
                      [e1, e2, LogSystemEvent (errorLog (j_id job)
                         (''Failed to create media item for job '' @ j_id job @ '': ''
                            @ message err)
                         ''media_create_failed'')])
                 | None \<Rightarrow> (True, [e1, e2])))"

subsection \<open>One iteration of the loop over the batch\<close>

definition truthy :: "jsval \<Rightarrow> bool" where
  "truthy v =
     (case v of
        JUndefined \<Rightarrow> False
      | JNull \<Rightarrow> False
      | JBool b \<Rightarrow> b
      | JNum n \<Rightarrow> n \<noteq> 0
      | JStr s \<Rightarrow> s \<noteq> [])"

definition is_boolean :: "jsval \<Rightarrow> bool" where
  "is_boolean v = (case v of JBool _ \<Rightarrow> True | _ \<Rightarrow> False)"

text \<open>
  The block of the per-job \<^verbatim>\<open>try\<close>. Its result is \<open>Inr True\<close> when control reaches
  \<^verbatim>\<open>completedJobs.push(job)\<close>, \<open>Inr False\<close> on \<^verbatim>\<open>continue\<close>, and \<open>Inl err\<close> for
  an exception that leaves the block.
\<close>

definition reconcileBody ::
  "world \<Rightarrow> string \<Rightarrow> job \<Rightarrow> verdict \<Rightarrow> event list \<Rightarrow> (thrown + bool) \<times> event list" where
  "reconcileBody w type job result h =
     (if truthy (r_is_nsfw result) then (Inr True, quarantine w h type job)
      else (case commit w h job result of (done, evs) \<Rightarrow> (Inr done, evs)))"

text \<open>The per-job \<^verbatim>\<open>catch\<close>: the exception is logged and the job is not completed.\<close>

definition unexpectedError :: "job \<Rightarrow> thrown \<Rightarrow> event" where
  "unexpectedError job err =
     LogSystemEvent (errorLog (j_id job)
       (''Unexpected error while processing job '' @ j_id job @ '': '' @ message err)
       ''unexpected_job_processing_error'')"

definition catchUnexpected :: "job \<Rightarrow> (thrown + bool) \<times> event list \<Rightarrow> bool \<times> event list" where
  "catchUnexpected job r =
     (case r of
        (Inr done, evs) \<Rightarrow> (done, evs)
      | (Inl err, evs) \<Rightarrow> (False, evs @ [unexpectedError job err]))"

definition missingResult :: "job \<Rightarrow> event" where
  "missingResult job =
     LogSystemEvent (errorLog (j_id job)
       (''[Scanner] Invalid or missing result for media '' @ j_id job)
       ''scan_result_missing'')"

text \<open>
  The loop body, for any block \<open>body\<close> of the \<^verbatim>\<open>try\<close>; the orchestrator runs it with
  \<open>reconcileBody\<close>. The flag says whether the job was pushed to \<^verbatim>\<open>completedJobs\<close>.
\<close>

definition processJobWith ::
  "(string \<Rightarrow> job \<Rightarrow> verdict \<Rightarrow> event list \<Rightarrow> (thrown + bool) \<times> event list) \<Rightarrow>
   string \<Rightarrow> (string \<rightharpoonup> verdict) \<Rightarrow> job \<Rightarrow> event list \<Rightarrow> bool \<times> event list" where
  "processJobWith body type resultsById job h =
     (case resultsById (j_id job) of
        None \<Rightarrow> (False, [missingResult job])
      | Some result \<Rightarrow>
          if \<not> is_boolean (r_is_nsfw result) then (False, [missingResult job])
          else catchUnexpected job (body type job result h))"

fun processJobsWith ::
  "(string \<Rightarrow> job \<Rightarrow> verdict \<Rightarrow> event list \<Rightarrow> (thrown + bool) \<times> event list) \<Rightarrow>
   string \<Rightarrow> (string \<rightharpoonup> verdict) \<Rightarrow> job list \<Rightarrow> job list \<Rightarrow> event list \<Rightarrow>
   job list \<times> event list" where
  "processJobsWith body type resultsById [] completedJobs h = (completedJobs, [])"
| "processJobsWith body type resultsById (job # rest) completedJobs h =
     (case processJobWith body type resultsById job h of
        (done, evs) \<Rightarrow>
          (case processJobsWith body type resultsById rest
                  (if done then completedJobs @ [job] else completedJobs) (h @ evs) of
             (completed, evs') \<Rightarrow> (completed, evs @ evs')))"

definition processJob ::
  "world \<Rightarrow> string \<Rightarrow> (string \<rightharpoonup> verdict) \<Rightarrow> job \<Rightarrow> event list \<Rightarrow> bool \<times> event list" where
  "processJob w = processJobWith (reconcileBody w)"

definition processJobs ::
  "world \<Rightarrow> string \<Rightarrow> (string \<rightharpoonup> verdict) \<Rightarrow> job list \<Rightarrow> job list \<Rightarrow> event list \<Rightarrow>
   job list \<times> event list" where
  "processJobs w = processJobsWith (reconcileBody w)"

subsection \<open>scanMediaJobs\<close>

text \<open>
  \<^verbatim>\<open>Object.fromEntries\<close>: a later entry for the same job id replaces an earlier one.
  (For a job id that names a property of \<^verbatim>\<open>Object.prototype\<close> and has no entry, the
  lookup yields that property, whose \<open>is_nsfw\<close> is \<^verbatim>\<open>undefined\<close>: the job is handled
  as one without a verdict, as here.)
\<close>

definition resultsById :: "verdict list \<Rightarrow> (string \<rightharpoonup> verdict)" where
  "resultsById results = map_of (rev (map (\<lambda>r. (r_job_id r, r)) results))"

definition failedScan :: "thrown \<Rightarrow> event" where
  "failedScan err =
     LogSystemEvent
       \<lparr>l_action = ''failed_scan'',
        l_description = Some (''Failed to scan media via modal scan engine: '' @ message err),
        l_error_name = Some ''media_scan_engine_failed'',
        l_target_id = None, l_metadata = []\<rparr>"

text \<open>
  \<^verbatim>\<open>results.map(r => [r.job_id, r])\<close>: reading \<^verbatim>\<open>job_id\<close> of an element that is
  \<^verbatim>\<open>null\<close> or \<^verbatim>\<open>undefined\<close> throws, outside every \<^verbatim>\<open>try\<close> of \<^verbatim>\<open>scanMediaJobs\<close>.
\<close>

definition resultEntries :: "verdict option list \<Rightarrow> thrown + verdict list" where
  "resultEntries results =
     (case those results of
        None \<Rightarrow> Inl (Error ''Cannot read properties of null (reading 'job_id')'')
      | Some verdicts \<Rightarrow> Inr verdicts)"

text \<open>
  The first part of \<^verbatim>\<open>scanMediaJobs\<close>, up to the entries of the index: selecting the
  backend, obtaining the result list and reading its elements. The per-image backend
  returns objects it built itself.
\<close>

definition fetchResults ::
  "world \<Rightarrow> event list \<Rightarrow> job list \<Rightarrow> string \<Rightarrow> (thrown + verdict list) \<times> event list" where
  "fetchResults w h jobs type =
     (if type = ''images'' \<and> length jobs \<le> 16 then safeSearchFromUrls w h jobs
      else (case withRetry w h (prepareJobs jobs type) 0 of
              (Inr results, evs) \<Rightarrow> (resultEntries results, evs)
            | (Inl err, evs) \<Rightarrow> (Inl err, evs @ [failedScan err])))"

text \<open>Marking the completed jobs and the summary event.\<close>

definition finishBatch :: "world \<Rightarrow> event list \<Rightarrow> job list \<Rightarrow> event list" where
  "finishBatch w h completedJobs =
     (let out = markJobsAsComplete w h completedJobs
      in MarkJobsAsComplete completedJobs out #
         (case out of
            None \<Rightarrow>
              [LogSystemEvent
                 \<lparr>l_action = ''scan'',
                  l_description =
                    Some (''Marked '' @ string_of_nat (length completedJobs)
                            @ '' jobs as complete.''),
                  l_error_name = None, l_target_id = None, l_metadata = []\<rparr>]
          | Some err \<Rightarrow>
              [LogSystemEvent
                 \<lparr>l_action = ''error'',
                  l_description = Some (''Failed to mark jobs as complete: '' @ message err),
                  l_error_name = Some ''mark_jobs_complete_failed'',
                  l_target_id = None, l_metadata = []\<rparr>]))"

definition scanMediaJobs ::
  "world \<Rightarrow> event list \<Rightarrow> job list \<Rightarrow> string \<Rightarrow> (thrown + unit) \<times> event list" where
  "scanMediaJobs w h jobs type =
     (if type \<notin> set [''images'', ''videos'']
      then (Inl (Error (''Invalid scan type: '' @ type)),
            [LogSystemEvent
               \<lparr>l_action = ''error'', l_description = Some (''Invalid scan type: '' @ type),
                l_error_name = Some ''invalid_scan_type'', l_target_id = None,
                l_metadata = []\<rparr>])
      else (case fetchResults w h jobs type of
              (Inl err, evs) \<Rightarrow> (Inl err, evs)
            | (Inr results, evs) \<Rightarrow>
                (case processJobs w type (resultsById results) jobs [] (h @ evs) of
                   (completedJobs, evs2) \<Rightarrow>
                     (Inr (), evs @ evs2 @ finishBatch w (h @ evs @ evs2) completedJobs))))"

section \<open>The batching queue (queue.js)\<close>

text \<open>
  The module's variables. A timer is \<open>Some delay\<close> while a timeout is pending and
  \<open>None\<close> otherwise. \<open>imageScans\<close> and \<open>videoScans\<close> hold the batches handed to
  \<^verbatim>\<open>scanMediaJobs\<close> whose promise has not settled yet, that is, whose
  \<^verbatim>\<open>finally\<close> callback has not run: the scans in flight.
\<close>

record queue_state =
  imageQueue :: "job list"
  videoQueue :: "job list"
  imageScanning :: bool
  videoScanning :: bool
  imageTimer :: "int option"
  videoTimer :: "int option"
  firstImageTime :: "int option"
  firstVideoTime :: "int option"
  imageScans :: "job list list"
  videoScans :: "job list list"

definition initial :: queue_state where
  "initial =
     \<lparr>imageQueue = [], videoQueue = [], imageScanning = False, videoScanning = False,
      imageTimer = None, videoTimer = None, firstImageTime = None, firstVideoTime = None,
      imageScans = [], videoScans = []\<rparr>"

definition IMAGE_MAX_WAIT :: int where "IMAGE_MAX_WAIT = 10000"
definition IMAGE_INTERVAL :: int where "IMAGE_INTERVAL = 2000"
definition IMAGE_BATCH_SIZE :: nat where "IMAGE_BATCH_SIZE = 50"

definition VIDEO_MAX_WAIT :: int where "VIDEO_MAX_WAIT = 10000"
definition VIDEO_INTERVAL :: int where "VIDEO_INTERVAL = 3000"
definition VIDEO_BATCH_SIZE :: nat where "VIDEO_BATCH_SIZE = 10"

text \<open>\<^verbatim>\<open>splice(0, n)\<close> returns the first \<open>n\<close> elements and leaves the rest in the queue.\<close>

definition maybeFlushImages :: "queue_state \<Rightarrow> queue_state" where
  "maybeFlushImages s =
     (if imageScanning s \<or> length (imageQueue s) = 0 then s
      else (let batch = take IMAGE_BATCH_SIZE (imageQueue s);
                s1 = s\<lparr>imageQueue := drop IMAGE_BATCH_SIZE (imageQueue s)\<rparr>
            in if length batch = 0 then s1
               else s1\<lparr>imageScanning := True, imageScans := imageScans s1 @ [batch]\<rparr>))"

definition maybeFlushVideos :: "queue_state \<Rightarrow> queue_state" where
  "maybeFlushVideos s =
     (if videoScanning s \<or> length (videoQueue s) = 0 then s
      else (let batch = take VIDEO_BATCH_SIZE (videoQueue s);
                s1 = s\<lparr>videoQueue := drop VIDEO_BATCH_SIZE (videoQueue s)\<rparr>
            in if length batch = 0 then s1
               else s1\<lparr>videoScanning := True, videoScans := videoScans s1 @ [batch]\<rparr>))"

text \<open>\<^verbatim>\<open>!firstVideoTime\<close> holds for \<^verbatim>\<open>null\<close> and for \<open>0\<close>.\<close>

definition firstTime :: "int option \<Rightarrow> int \<Rightarrow> int" where
  "firstTime first now = (case first of None \<Rightarrow> now | Some t \<Rightarrow> if t = 0 then now else t)"

definition scheduleFlush :: "bool \<Rightarrow> int \<Rightarrow> queue_state \<Rightarrow> queue_state" where
  "scheduleFlush isVideo now s =
     (if isVideo then
        (let first = firstTime (firstVideoTime s) now;
             s1 = s\<lparr>firstVideoTime := Some first, videoTimer := None\<rparr>;
             elapsed = now - first
         in if elapsed \<ge> VIDEO_MAX_WAIT \<or> length (videoQueue s1) \<ge> VIDEO_BATCH_SIZE
            then maybeFlushVideos (s1\<lparr>firstVideoTime := None\<rparr>)
            else s1\<lparr>videoTimer := Some (min (VIDEO_MAX_WAIT - elapsed) VIDEO_INTERVAL)\<rparr>)
      else
        (let first = firstTime (firstImageTime s) now;
             s1 = s\<lparr>firstImageTime := Some first, imageTimer := None\<rparr>;
             elapsed = now - first
         in if elapsed \<ge> IMAGE_MAX_WAIT \<or> length (imageQueue s1) \<ge> IMAGE_BATCH_SIZE
            then maybeFlushImages (s1\<lparr>firstImageTime := None\<rparr>)
            else s1\<lparr>imageTimer := Some (min (IMAGE_MAX_WAIT - elapsed) IMAGE_INTERVAL)\<rparr>))"

text \<open>The callbacks of the two timeouts.\<close>

definition imageTimerFired :: "queue_state \<Rightarrow> queue_state" where
  "imageTimerFired s = maybeFlushImages (s\<lparr>imageTimer := None, firstImageTime := None\<rparr>)"

definition videoTimerFired :: "queue_state \<Rightarrow> queue_state" where
  "videoTimerFired s = maybeFlushVideos (s\<lparr>videoTimer := None, firstVideoTime := None\<rparr>)"

text \<open>
  The \<^verbatim>\<open>finally\<close> callbacks, run when the promise of the scan of \<open>batch\<close> settles,
  whether the scan succeeded or failed.
\<close>

definition imageScanSettled :: "job list \<Rightarrow> int \<Rightarrow> queue_state \<Rightarrow> queue_state" where
  "imageScanSettled batch now s =
     (let s1 = s\<lparr>imageScans := remove1 batch (imageScans s), imageScanning := False\<rparr>
      in if length (imageQueue s1) > 0 then scheduleFlush False now s1 else s1)"

definition videoScanSettled :: "job list \<Rightarrow> int \<Rightarrow> queue_state \<Rightarrow> queue_state" where
  "videoScanSettled batch now s =
     (let s1 = s\<lparr>videoScans := remove1 batch (videoScans s), videoScanning := False\<rparr>
      in if length (videoQueue s1) > 0 then scheduleFlush True now s1 else s1)"

text \<open>
  \<^verbatim>\<open>queueMediaJob\<close>: an \<^verbatim>\<open>async\<close> function, so reading \<^verbatim>\<open>startsWith\<close> of a
  missing mime type rejects its promise and leaves the queues as they were.
\<close>

definition queueMediaJob :: "job \<Rightarrow> int \<Rightarrow> queue_state \<Rightarrow> thrown + queue_state" where
  "queueMediaJob job now s =
     (case j_mime_type job of
        None \<Rightarrow> Inl (Error ''Cannot read properties of undefined (reading 'startsWith')'')
      | Some mime \<Rightarrow>
          if startsWith mime ''video''
          then Inr (scheduleFlush True now (s\<lparr>videoQueue := videoQueue s @ [job]\<rparr>))
          else Inr (scheduleFlush False now (s\<lparr>imageQueue := imageQueue s @ [job]\<rparr>)))"

text \<open>
  The states the module can be in: every handler runs to completion before the next
  one starts. The last rule is the direct call of \<^verbatim>\<open>scheduleFlush\<close> at the end of
  the recovery routine.
\<close>

inductive_set reachable :: "queue_state set" where
  start: "initial \<in> reachable"
| enqueue: "s \<in> reachable \<Longrightarrow> queueMediaJob job now s = Inr s' \<Longrightarrow> s' \<in> reachable"
| image_timer: "s \<in> reachable \<Longrightarrow> imageTimer s \<noteq> None \<Longrightarrow> imageTimerFired s \<in> reachable"
| video_timer: "s \<in> reachable \<Longrightarrow> videoTimer s \<noteq> None \<Longrightarrow> videoTimerFired s \<in> reachable"
| image_settled:
    "s \<in> reachable \<Longrightarrow> batch \<in> set (imageScans s) \<Longrightarrow> imageScanSettled batch now s \<in> reachable"
| video_settled:
    "s \<in> reachable \<Longrightarrow> batch \<in> set (videoScans s) \<Longrightarrow> videoScanSettled batch now s \<in> reachable"
| flush: "s \<in> reachable \<Longrightarrow> scheduleFlush isVideo now s \<in> reachable"

subsection \<open>The recovery routine\<close>

text \<open>
  One iteration of the loop over the pending jobs. The call of \<^verbatim>\<open>queueMediaJob\<close> is
  not awaited, so its rejection does not reach the \<^verbatim>\<open>catch\<close>: the promise stays
  without a handler, which the trace records, and the loop itself goes on. What the
  runtime does with an unhandled rejection is its own policy (Node.js ends the process
  by default since version 15), so what follows such an event in a trace is what the
  module does when the runtime lets it run.
  The event passed to \<^verbatim>\<open>logSystemEvent\<close> has no \<open>description\<close>, no \<open>target_id\<close> and no
  \<open>metadata\<close>: the message and the job are given under other names
  (\<^verbatim>\<open>message\<close>, \<^verbatim>\<open>meta\<close>), which \<^verbatim>\<open>logSystemEvent\<close> does not read.
\<close>

definition signFailed :: event where
  "signFailed =
     LogSystemEvent
       \<lparr>l_action = ''error'', l_description = None,
        l_error_name = Some ''signed_url_generation_failed'',
        l_target_id = None, l_metadata = []\<rparr>"

definition recoverJob ::
  "world \<Rightarrow> job \<Rightarrow> queue_state \<Rightarrow> event list \<Rightarrow> queue_state \<times> event list" where
  "recoverJob w job s h =
     (if j_file_name job = [] then (s, [])
      else (let out = sign_url w h (j_file_name job);
                ev = GenerateSignedGetUrl (j_file_name job) out
            in case out of
                 SignRejects err \<Rightarrow> (s, [ev, signFailed])
               | SignResolves signedUrl \<Rightarrow>
                   if falsy_str signedUrl then (s, [ev])
                   else (case queueMediaJob (job\<lparr>j_url := signedUrl\<rparr>)
                                (date_now w (h @ [ev])) s of
                           Inl err \<Rightarrow> (s, [ev, UnhandledRejection err])
                         | Inr s' \<Rightarrow> (s', [ev]))))"

fun recoverJobs ::
  "world \<Rightarrow> job list \<Rightarrow> queue_state \<Rightarrow> event list \<Rightarrow> queue_state \<times> event list" where
  "recoverJobs w [] s h = (s, [])"
| "recoverJobs w (job # rest) s h =
     (case recoverJob w job s h of
        (s1, evs) \<Rightarrow>
          (case recoverJobs w rest s1 (h @ evs) of
             (s2, evs') \<Rightarrow> (s2, evs @ evs')))"

text \<open>The routine, given what \<^verbatim>\<open>getPendingMediaJobs\<close> returned.\<close>

definition recovery ::
  "world \<Rightarrow> job list \<Rightarrow> queue_state \<Rightarrow> event list \<Rightarrow> queue_state \<times> event list" where
  "recovery w missedJobs s h =
     (if length missedJobs = 0 then (s, [])
      else (case recoverJobs w missedJobs s h of
              (s1, evs) \<Rightarrow>
                (let s2 = (if length (imageQueue s1) > 0
                           then scheduleFlush False (date_now w (h @ evs)) s1 else s1);
                     s3 = (if length (videoQueue s2) > 0
                           then scheduleFlush True (date_now w (h @ evs)) s2 else s2)
                 in (s3, evs))))"

section \<open>Reading a trace\<close>

definition isErrorLog :: "event \<Rightarrow> bool" where
  "isErrorLog e = (case e of LogSystemEvent l \<Rightarrow> l_action l = ''error'' | _ \<Rightarrow> False)"

definition isRemoteCall :: "event \<Rightarrow> bool" where
  "isRemoteCall e = (case e of RemoteCall _ _ \<Rightarrow> True | _ \<Rightarrow> False)"

text \<open>The effects of reconciling a job and of closing a batch: every call but a scan or a wait.\<close>

definition isSideEffect :: "event \<Rightarrow> bool" where
  "isSideEffect e =
     (case e of
        RemoteCall _ _ \<Rightarrow> False
      | Sleep _ \<Rightarrow> False
      | VisionPost _ _ \<Rightarrow> False
      | _ \<Rightarrow> True)"

text \<open>The calls a job's reconciliation can make.\<close>

definition isReconcile :: "event \<Rightarrow> bool" where
  "isReconcile e =
     (case e of
        LogSystemEvent _ \<Rightarrow> True
      | AddBlockedHash _ _ \<Rightarrow> True
      | RestrictUserMediaUploads _ \<Rightarrow> True
      | MoveObjectWithinBuckets _ _ \<Rightarrow> True
      | CreateMediaItem _ _ \<Rightarrow> True
      | _ \<Rightarrow> False)"

text \<open>
  The single-flight flags agree with the scans in flight: a class has one scan in flight
  when its flag is set and none otherwise.
\<close>

definition flagsMatchScans :: "queue_state \<Rightarrow> bool" where
  "flagsMatchScans s =
     (length (imageScans s) = (if imageScanning s then 1 else 0)
      \<and> length (videoScans s) = (if videoScanning s then 1 else 0))"

text \<open>The jobs the queue module holds: those of the scans in flight and those queued.\<close>

definition heldJobs :: "queue_state \<Rightarrow> job list" where
  "heldJobs s =
     concat (imageScans s) @ imageQueue s @ concat (videoScans s) @ videoQueue s"

section \<open>Sample data\<close>

definition sampleImage :: job where
  "sampleImage =
     \<lparr>j_id = ''job-1'', j_user_id = ''user-1'', j_file_name = ''images/jo/job-1.jpeg'',
      j_file_size = 2048, j_sha256_hash = ''a3f1'', j_mime_type = Some ''image/jpeg'',
      j_linked_to_id = ''post-7'', j_linked_to_type = Some ''post'',
      j_url = Some ''https://staging/job-1''\<rparr>"

definition sampleVideo :: job where
  "sampleVideo =
     \<lparr>j_id = ''job-2'', j_user_id = ''user-2'', j_file_name = ''videos/jo/job-2.mp4'',
      j_file_size = 4096, j_sha256_hash = ''b7c2'', j_mime_type = Some ''video/mp4'',
      j_linked_to_id = ''project-3'', j_linked_to_type = Some ''project'',
      j_url = Some ''https://staging/job-2''\<rparr>"

definition sampleVerdict :: "string \<Rightarrow> jsval \<Rightarrow> verdict" where
  "sampleVerdict job_id is_nsfw =
     \<lparr>r_job_id = job_id, r_is_nsfw = is_nsfw, r_width = Some 640, r_height = Some 480,
      r_duration = Some 12, r_error = None\<rparr>"

text \<open>
  A world whose answers do not depend on the history: the scan function and the vision
  API answer \<open>scan\<close> and \<open>vision\<close>, a move ends as \<open>moved\<close>, a blocklist insert as
  \<open>blocked\<close>, and every other request succeeds.
\<close>

definition sampleWorld ::
  "remote_outcome \<Rightarrow> axios_outcome \<Rightarrow> thrown option \<Rightarrow> thrown option \<Rightarrow> world" where
  "sampleWorld scan vision moved blocked =
     \<lparr>remote = (\<lambda>h pl. scan), axios_post = (\<lambda>h requests. vision),
      s3_move = (\<lambda>h args. moved), insert_blocked_hash = (\<lambda>h b. blocked),
      insert_media = (\<lambda>h item. None), update_complete = (\<lambda>h ids. None),
      sign_url = (\<lambda>h fileKey. SignResolves (Some (''https://signed/'' @ fileKey))),
      date_now = (\<lambda>h. 1000)\<rparr>"

text \<open>The verdicts and worlds of the scenarios below.\<close>

definition flaggedVerdict :: verdict where
  "flaggedVerdict = sampleVerdict ''job-2'' (JBool True)"

definition clearedVerdict :: verdict where
  "clearedVerdict = sampleVerdict ''job-2'' (JBool False)"

definition flaggedWorld :: world where
  "flaggedWorld =
     sampleWorld (Resolves (Results [Some flaggedVerdict])) (AxiosData None)
       (Some (Error ''AccessDenied'')) (Some (Error ''blocklist unavailable''))"

definition silentWorld :: world where
  "silentWorld = sampleWorld (Resolves (Results [])) (AxiosData None) None None"

definition moveFailsWorld :: world where
  "moveFailsWorld =
     sampleWorld (Resolves (Results [Some clearedVerdict])) (AxiosData None)
       (Some (Error ''NoSuchKey'')) None"

definition remoteDownWorld :: world where
  "remoteDownWorld =
     sampleWorld (Rejects (Error ''deadline exceeded'')) (AxiosData None) None None"


definition visionErrorWorld :: world where
  "visionErrorWorld =
     sampleWorld (Resolves Falsy)
       (AxiosData (Some [\<lparr>v_error = Some ''Bad image data'',
                          v_safeSearchAnnotation = None\<rparr>]))
       None None"

definition erroredVerdict :: verdict where
  "erroredVerdict =
     \<lparr>r_job_id = ''job-1'', r_is_nsfw = JBool False, r_width = None, r_height = None,
      r_duration = None, r_error = Some ''Bad image data''\<rparr>"

text \<open>A block of the per-job \<^verbatim>\<open>try\<close> that throws at once.\<close>

definition throwingBody ::
  "string \<Rightarrow> job \<Rightarrow> verdict \<Rightarrow> event list \<Rightarrow> (thrown + bool) \<times> event list" where
  "throwingBody type job result h = (Inl (Error ''defect''), [])"

text \<open>Nine videos wait in the queue, the timer armed by the last of them.\<close>

definition nineVideos :: queue_state where
  "nineVideos =
     initial\<lparr>videoQueue := replicate 9 sampleVideo, firstVideoTime := Some 1000,
             videoTimer := Some 3000\<rparr>"

text \<open>A video is being scanned while a second one waits.\<close>

definition scanningVideo :: queue_state where
  "scanningVideo =
     initial\<lparr>videoQueue := [sampleVideo], videoScanning := True,
             videoScans := [[sampleVideo]], firstVideoTime := Some 5000,
             videoTimer := Some 3000\<rparr>"

text \<open>A state with a scan in flight, a queued job and a pending timer in each class.\<close>

definition scanningBoth :: queue_state where
  "scanningBoth =
     scanningVideo\<lparr>imageQueue := [sampleImage], imageScanning := True,
                   imageScans := [[sampleImage]], firstImageTime := Some 6000,
                   imageTimer := Some 2000\<rparr>"

definition unnamedJob :: job where
  "unnamedJob = sampleImage\<lparr>j_file_name := []\<rparr>"


text \<open>The signer rejects the key of the sample video and signs every other key.\<close>

definition pickyWorld :: world where
  "pickyWorld =
     (sampleWorld (Resolves Falsy) (AxiosData None) None None)
       \<lparr>sign_url := (\<lambda>h fileKey. if fileKey = ''videos/jo/job-2.mp4''
                                 then SignRejects (Error ''credentials missing'')
                                 else SignResolves (Some (''https://signed/'' @ fileKey)))\<rparr>"


section \<open>Properties\<close>

lemma isErrorLog_simps [simp]:
  "isErrorLog (LogSystemEvent l) = (l_action l = ''error'')"
  "\<not> isErrorLog (AddBlockedHash b out)"
  "\<not> isErrorLog (RestrictUserMediaUploads u)"
  "\<not> isErrorLog (MoveObjectWithinBuckets a out)"
  "\<not> isErrorLog (CreateMediaItem i out)"
  by (simp_all add: isErrorLog_def)

lemma errorLog_action [simp]: "l_action (errorLog t d n) = ''error''"
  by (simp add: errorLog_def)

lemma filter_blockHashStep:
  "filter (\<lambda>e. \<not> isErrorLog e) (blockHashStep w h job) =
     (case j_mime_type job of
        None \<Rightarrow> []
      | Some mime \<Rightarrow>
          [AddBlockedHash (blockedHashOf job mime) (addBlockedHash w h (blockedHashOf job mime))])"
  by (simp add: blockHashStep_def Let_def split: option.split)

lemma filter_restrictStep:
  "filter (\<lambda>e. \<not> isErrorLog e) (restrictStep job) = restrictStep job"
  by (simp add: restrictStep_def)

lemma filter_logUnsafeStep:
  "filter (\<lambda>e. \<not> isErrorLog e) (logUnsafeStep type job) = logUnsafeStep type job"
  by (simp add: logUnsafeStep_def)

lemma filter_quarantineMoveStep:
  "filter (\<lambda>e. \<not> isErrorLog e) (quarantineMoveStep w h job) =
     [MoveObjectWithinBuckets (quarantineArgs job) (s3_move w h (quarantineArgs job))]"
  by (simp add: quarantineMoveStep_def Let_def split: option.split)

lemma processJob_nsfw:
  "rb (j_id job) = Some result \<Longrightarrow> r_is_nsfw result = JBool True \<Longrightarrow>
   processJob w type rb job h = (True, quarantine w h type job)"
  by (simp add: processJob_def processJobWith_def is_boolean_def reconcileBody_def truthy_def
      catchUnexpected_def)

lemma processJob_safe:
  "rb (j_id job) = Some result \<Longrightarrow> r_is_nsfw result = JBool False \<Longrightarrow>
   processJob w type rb job h = commit w h job result"
  by (simp add: processJob_def processJobWith_def is_boolean_def reconcileBody_def truthy_def
      catchUnexpected_def split: prod.split)

lemma processJob_missing:
  "rb (j_id job) = None \<or> (\<exists>r. rb (j_id job) = Some r \<and> \<not> is_boolean (r_is_nsfw r)) \<Longrightarrow>
   processJob w type rb job h = (False, [missingResult job])"
  by (auto simp: processJob_def processJobWith_def)

lemma quarantine_trace:
  "\<exists>out1 out4. quarantine w h type job =
     (case j_mime_type job of
        None \<Rightarrow>
          [LogSystemEvent
             \<lparr>l_action = ''error'',
              l_description =
                Some (''Failed to add blocked hash for '' @ j_id job
                        @ '': Cannot read properties of undefined (reading 'startsWith')''),
              l_error_name = Some ''blocked_hash_add_failed'',
              l_target_id = Some (j_id job), l_metadata = []\<rparr>]
      | Some mime \<Rightarrow>
          AddBlockedHash
            \<lparr>b_hash_value = j_sha256_hash job, b_hash_type = ''sha256'',
             b_detected_type = ''nsfw'',
             b_source_type = (if startsWith mime ''video'' then ''video'' else ''image''),
             b_detected_by = ''media_scanner'',
             b_file_key =
               (case j_linked_to_type job of
                  None \<Rightarrow> j_file_name job
                | Some t \<Rightarrow>
                    if t \<in> {''post'', ''opportunity'', []} then j_file_name job
                    else t @ ''/'' @ j_file_name job)\<rparr>
            out1
          # (case out1 of
               None \<Rightarrow> []
             | Some err \<Rightarrow>
                 [LogSystemEvent
                    \<lparr>l_action = ''error'',
                     l_description =
                       Some (''Failed to add blocked hash for '' @ j_id job @ '': ''
                               @ message err),
                     l_error_name = Some ''blocked_hash_add_failed'',
                     l_target_id = Some (j_id job), l_metadata = []\<rparr>]))
     @ [RestrictUserMediaUploads (j_user_id job),
        LogSystemEvent
          \<lparr>l_action = ''unsafe_content_detected'',
           l_description = Some (''NSFW detected in '' @ butlast type @ '' with ID '' @ j_id job),
           l_error_name = None, l_target_id = Some (j_id job),
           l_metadata = [(''file_name'', Some (j_file_name job)),
                         (''user_id'', Some (j_user_id job)),
                         (''linked_to_type'', j_linked_to_type job)]\<rparr>,
        MoveObjectWithinBuckets
          \<lparr>mv_fromKey = j_file_name job, mv_toBucket = BucketName ''quarantine'',
           mv_toKey = j_file_name job\<rparr>
          out4]
     @ (case out4 of
          None \<Rightarrow> []
        | Some err \<Rightarrow>
            [LogSystemEvent
               \<lparr>l_action = ''error'',
                l_description =
                  Some (''Failed to move NSFW item '' @ j_id job @ '' to quarantine: ''
                          @ message err),
                l_error_name = Some ''quarantine_move_failed'',
                l_target_id = Some (j_id job), l_metadata = []\<rparr>])"
proof -
  define out1 where
    "out1 = (case j_mime_type job of
               None \<Rightarrow> None
             | Some mime \<Rightarrow> addBlockedHash w h (blockedHashOf job mime))"
  define e1 where "e1 = blockHashStep w h job"
  define out4 where
    "out4 = s3_move w (h @ e1 @ restrictStep job @ logUnsafeStep type job) (quarantineArgs job)"
  have key: "toKey job =
      (case j_linked_to_type job of
         None \<Rightarrow> j_file_name job
       | Some t \<Rightarrow>
           if t \<in> {''post'', ''opportunity'', []} then j_file_name job
           else t @ ''/'' @ j_file_name job)"
    by (simp add: toKey_def prefixTypes_def split: option.split)
  have s1: "e1 =
     (case j_mime_type job of
        None \<Rightarrow>
          [LogSystemEvent
             \<lparr>l_action = ''error'',
              l_description =
                Some (''Failed to add blocked hash for '' @ j_id job
                        @ '': Cannot read properties of undefined (reading 'startsWith')''),
              l_error_name = Some ''blocked_hash_add_failed'',
              l_target_id = Some (j_id job), l_metadata = []\<rparr>]
      | Some mime \<Rightarrow>
          AddBlockedHash
            \<lparr>b_hash_value = j_sha256_hash job, b_hash_type = ''sha256'',
             b_detected_type = ''nsfw'',
             b_source_type = (if startsWith mime ''video'' then ''video'' else ''image''),
             b_detected_by = ''media_scanner'', b_file_key = toKey job\<rparr>
            out1
          # (case out1 of
               None \<Rightarrow> []
             | Some err \<Rightarrow>
                 [LogSystemEvent
                    \<lparr>l_action = ''error'',
                     l_description =
                       Some (''Failed to add blocked hash for '' @ j_id job @ '': ''
                               @ message err),
                     l_error_name = Some ''blocked_hash_add_failed'',
                     l_target_id = Some (j_id job), l_metadata = []\<rparr>]))"
    by (cases "j_mime_type job")
       (simp_all add: e1_def out1_def blockHashStep_def Let_def errorLog_def blockedHashOf_def
          split: option.split)
  have s4: "quarantineMoveStep w (h @ e1 @ restrictStep job @ logUnsafeStep type job) job =
     MoveObjectWithinBuckets
       \<lparr>mv_fromKey = j_file_name job, mv_toBucket = BucketName ''quarantine'',
        mv_toKey = j_file_name job\<rparr>
       out4
     # (case out4 of
          None \<Rightarrow> []
        | Some err \<Rightarrow>
            [LogSystemEvent
               \<lparr>l_action = ''error'',
                l_description =
                  Some (''Failed to move NSFW item '' @ j_id job @ '' to quarantine: ''
                          @ message err),
                l_error_name = Some ''quarantine_move_failed'',
                l_target_id = Some (j_id job), l_metadata = []\<rparr>])"
    by (simp add: quarantineMoveStep_def Let_def out4_def errorLog_def quarantineArgs_def
        split: option.split)
  have q: "quarantine w h type job =
      e1 @ restrictStep job @ logUnsafeStep type job
      @ quarantineMoveStep w (h @ e1 @ restrictStep job @ logUnsafeStep type job) job"
    by (simp add: quarantine_def Let_def e1_def)
  show ?thesis
    apply (rule exI [of _ out1])
    apply (rule exI [of _ out4])
    apply (simp only: q s4)
    apply (simp only: s1 key [symmetric])
    apply (simp add: restrictStep_def logUnsafeStep_def)
    done
qed

text \<open>
  Claim C6. On the quarantine path (a verdict with \<open>is_nsfw = true\<close>), whatever the
  outcome of each call, the job is completed and the trace is, in this order: the
  blocklist insert of the job's hash (followed by the \<open>blocked_hash_add_failed\<close> event
  when it throws), the restriction of the uploading user, the
  \<open>unsafe_content_detected\<close> event with the job as target and its file name, user and
  type as metadata, and the move of the object to the \<open>quarantine\<close> bucket under the
  same key (followed by the \<open>quarantine_move_failed\<close> event when it throws). For a job
  without a mime type the first step throws while its argument is built, before the
  insert is called, and the other three steps are made all the same.
\<close>

theorem quarantine_steps_independent:
  assumes "rb (j_id job) = Some result" and "r_is_nsfw result = JBool True"
  shows "fst (processJob w type rb job h)
    \<and> (\<exists>out1 out4. snd (processJob w type rb job h) =
     (case j_mime_type job of
        None \<Rightarrow>
          [LogSystemEvent
             \<lparr>l_action = ''error'',
              l_description =
                Some (''Failed to add blocked hash for '' @ j_id job
                        @ '': Cannot read properties of undefined (reading 'startsWith')''),
              l_error_name = Some ''blocked_hash_add_failed'',
              l_target_id = Some (j_id job), l_metadata = []\<rparr>]
      | Some mime \<Rightarrow>
          AddBlockedHash
            \<lparr>b_hash_value = j_sha256_hash job, b_hash_type = ''sha256'',
             b_detected_type = ''nsfw'',
             b_source_type = (if startsWith mime ''video'' then ''video'' else ''image''),
             b_detected_by = ''media_scanner'',
             b_file_key =
               (case j_linked_to_type job of
                  None \<Rightarrow> j_file_name job
                | Some t \<Rightarrow>
                    if t \<in> {''post'', ''opportunity'', []} then j_file_name job
                    else t @ ''/'' @ j_file_name job)\<rparr>
            out1
          # (case out1 of
               None \<Rightarrow> []
             | Some err \<Rightarrow>
                 [LogSystemEvent
                    \<lparr>l_action = ''error'',
                     l_description =
                       Some (''Failed to add blocked hash for '' @ j_id job @ '': ''
                               @ message err),
                     l_error_name = Some ''blocked_hash_add_failed'',
                     l_target_id = Some (j_id job), l_metadata = []\<rparr>]))
     @ [RestrictUserMediaUploads (j_user_id job),
        LogSystemEvent
          \<lparr>l_action = ''unsafe_content_detected'',
           l_description = Some (''NSFW detected in '' @ butlast type @ '' with ID '' @ j_id job),
           l_error_name = None, l_target_id = Some (j_id job),
           l_metadata = [(''file_name'', Some (j_file_name job)),
                         (''user_id'', Some (j_user_id job)),
                         (''linked_to_type'', j_linked_to_type job)]\<rparr>,
        MoveObjectWithinBuckets
          \<lparr>mv_fromKey = j_file_name job, mv_toBucket = BucketName ''quarantine'',
           mv_toKey = j_file_name job\<rparr>
          out4]
     @ (case out4 of
          None \<Rightarrow> []
        | Some err \<Rightarrow>
            [LogSystemEvent
               \<lparr>l_action = ''error'',
                l_description =
                  Some (''Failed to move NSFW item '' @ j_id job @ '' to quarantine: ''
                          @ message err),
                l_error_name = Some ''quarantine_move_failed'',
                l_target_id = Some (j_id job), l_metadata = []\<rparr>]))"
proof -
  have p: "processJob w type rb job h = (True, quarantine w h type job)"
    using assms by (rule processJob_nsfw)
  show ?thesis
    unfolding p fst_conv snd_conv using quarantine_trace [of w h type job] by simp
qed

text \<open>
  Claim C3. On the commit path (a verdict with \<open>is_nsfw = false\<close>): if the move
  fails the job is not completed and \<^verbatim>\<open>createMediaItem\<close> is not called; if the move
  succeeds and the metadata write fails the job is not completed; the job is completed
  exactly when both succeed.
\<close>

theorem commit_needs_move_and_record:
  assumes "rb (j_id job) = Some result" and "r_is_nsfw result = JBool False"
  shows "let moved = s3_move w h (commitArgs job);
             created = createMediaItem w (h @ [MoveObjectWithinBuckets (commitArgs job) moved])
                         (mediaItemOf job result);
             r = processJob w type rb job h
         in (moved \<noteq> None \<longrightarrow>
               \<not> fst r \<and> \<not> (\<exists>item out. CreateMediaItem item out \<in> set (snd r)))
          \<and> (moved = None \<and> created \<noteq> None \<longrightarrow> \<not> fst r)
          \<and> (fst r \<longleftrightarrow> moved = None \<and> created = None)"
proof -
  have p: "processJob w type rb job h = commit w h job result"
    using assms by (rule processJob_safe)
  show ?thesis
    unfolding p by (simp add: commit_def Let_def split: option.split)
qed

lemma create_in_commit:
  "CreateMediaItem item out \<in> set (snd (commit w h job result)) \<Longrightarrow> item = mediaItemOf job result"
  by (simp add: commit_def Let_def split: option.splits)

lemma create_in_quarantine:
  "CreateMediaItem item out \<notin> set (quarantine w h type job)"
  by (simp add: quarantine_def Let_def blockHashStep_def restrictStep_def logUnsafeStep_def
      quarantineMoveStep_def split: option.split)

lemma is_boolean_cases: "is_boolean v \<Longrightarrow> v = JBool True \<or> v = JBool False"
  by (cases v) (auto simp: is_boolean_def)

lemma create_in_processJob:
  assumes "CreateMediaItem item out \<in> set (snd (processJob w type rb job h))"
  shows "m_job_id item = j_id job \<and> (\<exists>r. rb (j_id job) = Some r \<and> r_is_nsfw r = JBool False)"
proof (cases "rb (j_id job)")
  case None
  then show ?thesis
    using assms by (simp add: processJob_missing missingResult_def)
next
  case (Some r)
  show ?thesis
  proof (cases "is_boolean (r_is_nsfw r)")
    case False
    then show ?thesis
      using assms Some by (simp add: processJob_missing missingResult_def)
  next
    case True
    then consider "r_is_nsfw r = JBool True" | "r_is_nsfw r = JBool False"
      using is_boolean_cases by blast
    then show ?thesis
    proof cases
      case 1
      then show ?thesis
        using assms Some by (simp add: processJob_nsfw create_in_quarantine)
    next
      case 2
      then have "item = mediaItemOf job r"
        using assms Some create_in_commit by (simp add: processJob_safe)
      then show ?thesis
        using Some 2 by (simp add: mediaItemOf_def)
    qed
  qed
qed

lemma create_in_processJobs:
  "CreateMediaItem item out \<in> set (snd (processJobs w type rb jobs c h)) \<Longrightarrow>
   \<exists>r. rb (m_job_id item) = Some r \<and> r_is_nsfw r = JBool False"
proof (induction jobs arbitrary: c h)
  case Nil
  then show ?case by (simp add: processJobs_def)
next
  case (Cons j js)
  obtain d evs where pj: "processJobWith (reconcileBody w) type rb j h = (d, evs)"
    by (cases "processJobWith (reconcileBody w) type rb j h")
  obtain c' evs' where rest:
    "processJobsWith (reconcileBody w) type rb js (if d then c @ [j] else c) (h @ evs) = (c', evs')"
    by (cases "processJobsWith (reconcileBody w) type rb js (if d then c @ [j] else c) (h @ evs)")
  from Cons.prems have "CreateMediaItem item out \<in> set evs \<or> CreateMediaItem item out \<in> set evs'"
    by (simp add: processJobs_def pj rest)
  then show ?case
  proof
    assume "CreateMediaItem item out \<in> set evs"
    then have "CreateMediaItem item out \<in> set (snd (processJob w type rb j h))"
      by (simp add: processJob_def pj)
    from create_in_processJob [OF this] show ?thesis by auto
  next
    assume "CreateMediaItem item out \<in> set evs'"
    then have "CreateMediaItem item out \<in> set (snd (processJobs w type rb js (if d then c @ [j] else c) (h @ evs)))"
      by (simp add: processJobs_def rest)
    then show ?thesis by (rule Cons.IH)
  qed
qed

lemma withRetry_0:
  "withRetry w h pl 0 =
     (let o1 = remote w h pl; c1 = RemoteCall pl o1;
          h2 = h @ [c1, Sleep RETRY_DELAY_MS];
          o2 = remote w h2 pl; c2 = RemoteCall pl o2;
          h3 = h2 @ [c2, Sleep RETRY_DELAY_MS];
          o3 = remote w h3 pl; c3 = RemoteCall pl o3
      in case attemptResult o1 of
           Inr rs \<Rightarrow> (Inr rs, [c1])
         | Inl e1 \<Rightarrow>
             (case attemptResult o2 of
                Inr rs \<Rightarrow> (Inr rs, [c1, Sleep RETRY_DELAY_MS, c2])
              | Inl e2 \<Rightarrow>
                  (attemptResult o3,
                   [c1, Sleep RETRY_DELAY_MS, c2, Sleep RETRY_DELAY_MS, c3])))"
  by (simp add: withRetry.simps [of w _ pl 0] withRetry.simps [of w _ pl "Suc 0"]
      withRetry.simps [of w _ pl "Suc (Suc 0)"] MAX_RETRIES_def Let_def split: sum.split)

lemma isSideEffect_simps [simp]:
  "\<not> isSideEffect (RemoteCall pl out)" "\<not> isSideEffect (Sleep n)"
  "\<not> isSideEffect (VisionPost rq ao)"
  "isSideEffect (LogSystemEvent l)" "isSideEffect (AddBlockedHash b bo)"
  "isSideEffect (RestrictUserMediaUploads u)" "isSideEffect (MoveObjectWithinBuckets a mo)"
  "isSideEffect (CreateMediaItem i co)" "isSideEffect (MarkJobsAsComplete js jo)"
  by (simp_all add: isSideEffect_def)

lemma isRemoteCall_simps [simp]:
  "isRemoteCall (RemoteCall pl out)" "\<not> isRemoteCall (Sleep n)"
  "\<not> isRemoteCall (VisionPost rq ao)"
  "\<not> isRemoteCall (LogSystemEvent l)" "\<not> isRemoteCall (AddBlockedHash b bo)"
  "\<not> isRemoteCall (RestrictUserMediaUploads u)" "\<not> isRemoteCall (MoveObjectWithinBuckets a mo)"
  "\<not> isRemoteCall (CreateMediaItem i co)" "\<not> isRemoteCall (MarkJobsAsComplete js jo)"
  by (simp_all add: isRemoteCall_def)

lemma withRetry_no_side_effect:
  "filter isSideEffect (snd (withRetry w h pl 0)) = []"
  by (simp add: withRetry_0 Let_def split: sum.split)

lemma withRetry_attempts:
  "length (filter isRemoteCall (snd (withRetry w h pl 0))) \<le> 3"
  by (simp add: withRetry_0 Let_def split: sum.split)

lemma safeSearch_events: "snd (safeSearchFromUrls w h jobs) = [VisionPost (map j_url jobs) (axios_post w h (map j_url jobs))]"
  by (simp add: safeSearchFromUrls_def Let_def)

lemma failedScan_is_log: "\<exists>l. failedScan err = LogSystemEvent l"
  by (simp add: failedScan_def)

lemma failedScan_side [simp]: "isSideEffect (failedScan err)"
  by (simp add: failedScan_def)

lemma fetchResults_side_effects:
  "filter isSideEffect (snd (fetchResults w h jobs type)) = []
   \<or> (\<exists>err. fst (fetchResults w h jobs type) = Inl err
            \<and> filter isSideEffect (snd (fetchResults w h jobs type)) = [failedScan err])"
proof (cases "type = ''images'' \<and> length jobs \<le> 16")
  case True
  then show ?thesis
    by (simp add: fetchResults_def safeSearch_events)
next
  case False
  obtain res evs where wr: "withRetry w h (prepareJobs jobs type) 0 = (res, evs)"
    by (cases "withRetry w h (prepareJobs jobs type) 0")
  have "filter isSideEffect evs = []"
    using withRetry_no_side_effect [of w h "prepareJobs jobs type"] by (simp add: wr)
  then show ?thesis
    using False by (cases res) (auto simp: fetchResults_def wr)
qed

lemma fetch_ok_no_side_effects:
  assumes "fetchResults w h jobs type = (Inr results, evs)"
  shows "filter isSideEffect evs = []"
  using fetchResults_side_effects [of w h jobs type] by (simp add: assms)

lemma create_in_fetch: "CreateMediaItem item out \<notin> set (snd (fetchResults w h jobs type))"
proof
  assume "CreateMediaItem item out \<in> set (snd (fetchResults w h jobs type))"
  then have mem: "CreateMediaItem item out
      \<in> set (filter isSideEffect (snd (fetchResults w h jobs type)))"
    by simp
  from fetchResults_side_effects [of w h jobs type] show False
  proof
    assume "filter isSideEffect (snd (fetchResults w h jobs type)) = []"
    with mem show False by simp
  next
    assume "\<exists>err. fst (fetchResults w h jobs type) = Inl err
            \<and> filter isSideEffect (snd (fetchResults w h jobs type)) = [failedScan err]"
    then obtain err where "filter isSideEffect (snd (fetchResults w h jobs type)) = [failedScan err]"
      by blast
    with mem have "CreateMediaItem item out = failedScan err"
      by simp
    then show False
      by (simp add: failedScan_def)
  qed
qed

lemma create_in_finish: "CreateMediaItem item out \<notin> set (finishBatch w h c)"
  by (simp add: finishBatch_def Let_def split: option.split)

text \<open>
  Claim C1. Whatever the collaborators answer: when the backend returned \<open>results\<close>
  for the batch and the verdict indexed under a job's id has \<open>is_nsfw = true\<close>, no call
  of \<^verbatim>\<open>createMediaItem\<close> made by \<^verbatim>\<open>scanMediaJobs\<close> carries that job's id, so
  no approved-media record is created for it.
\<close>

theorem nsfw_never_approved:
  assumes "fetchResults w h jobs type = (Inr results, evs)"
    and "resultsById results (j_id job) = Some r"
    and "r_is_nsfw r = JBool True"
  shows "\<not> (\<exists>item out. CreateMediaItem item out \<in> set (snd (scanMediaJobs w h jobs type))
                       \<and> m_job_id item = j_id job)"
proof
  assume "\<exists>item out. CreateMediaItem item out \<in> set (snd (scanMediaJobs w h jobs type))
                       \<and> m_job_id item = j_id job"
  then obtain item out
    where mem: "CreateMediaItem item out \<in> set (snd (scanMediaJobs w h jobs type))"
      and same: "m_job_id item = j_id job"
    by blast
  obtain c evs2 where pj: "processJobs w type (resultsById results) jobs [] (h @ evs) = (c, evs2)"
    by (cases "processJobs w type (resultsById results) jobs [] (h @ evs)")
  have nf: "CreateMediaItem item out \<notin> set evs"
    using create_in_fetch [of item out w h jobs type] assms(1) by simp
  have "CreateMediaItem item out \<in> set evs2"
    using mem nf create_in_finish
    by (simp add: scanMediaJobs_def assms(1) pj split: if_splits)
  then have "CreateMediaItem item out \<in> set (snd (processJobs w type (resultsById results) jobs [] (h @ evs)))"
    by (simp add: pj)
  from create_in_processJobs [OF this] same assms(2,3) show False
    by simp
qed

lemma isReconcile_simps [simp]:
  "\<not> isReconcile (RemoteCall pl out)" "\<not> isReconcile (Sleep n)"
  "\<not> isReconcile (VisionPost rq ao)" "\<not> isReconcile (MarkJobsAsComplete js jo)"
  "\<not> isReconcile (GenerateSignedGetUrl k so)"
  "isReconcile (LogSystemEvent l)" "isReconcile (AddBlockedHash b bo)"
  "isReconcile (RestrictUserMediaUploads u)" "isReconcile (MoveObjectWithinBuckets a mo)"
  "isReconcile (CreateMediaItem i co)"
  by (simp_all add: isReconcile_def)

lemma commit_reconcile: "e \<in> set (snd (commit w h job result)) \<Longrightarrow> isReconcile e"
  by (auto simp: commit_def Let_def split: option.splits)

lemma quarantine_reconcile: "e \<in> set (quarantine w h type job) \<Longrightarrow> isReconcile e"
  by (auto simp: quarantine_def Let_def blockHashStep_def restrictStep_def logUnsafeStep_def
      quarantineMoveStep_def split: option.splits)

lemma processJob_reconcile:
  assumes "e \<in> set (snd (processJob w type rb job h))"
  shows "isReconcile e"
proof (cases "rb (j_id job)")
  case None
  then show ?thesis
    using assms by (simp add: processJob_missing missingResult_def)
next
  case (Some r)
  show ?thesis
  proof (cases "is_boolean (r_is_nsfw r)")
    case False
    then show ?thesis
      using assms Some by (simp add: processJob_missing missingResult_def)
  next
    case True
    then consider "r_is_nsfw r = JBool True" | "r_is_nsfw r = JBool False"
      using is_boolean_cases by blast
    then show ?thesis
    proof cases
      case 1
      then show ?thesis
        using assms Some quarantine_reconcile by (simp add: processJob_nsfw)
    next
      case 2
      then show ?thesis
        using assms Some commit_reconcile by (simp add: processJob_safe)
    qed
  qed
qed

lemma processJobsWith_events:
  "e \<in> set (snd (processJobsWith body type rb jobs c h)) \<Longrightarrow>
   \<exists>j h'. j \<in> set jobs \<and> e \<in> set (snd (processJobWith body type rb j h'))"
proof (induction jobs arbitrary: c h)
  case Nil
  then show ?case by simp
next
  case (Cons j js)
  obtain d evs where pj: "processJobWith body type rb j h = (d, evs)"
    by (cases "processJobWith body type rb j h")
  obtain c' evs' where rest:
    "processJobsWith body type rb js (if d then c @ [j] else c) (h @ evs) = (c', evs')"
    by (cases "processJobsWith body type rb js (if d then c @ [j] else c) (h @ evs)")
  from Cons.prems have "e \<in> set evs \<or> e \<in> set evs'"
    by (simp add: pj rest)
  then show ?case
  proof
    assume "e \<in> set evs"
    then have "e \<in> set (snd (processJobWith body type rb j h))"
      by (simp add: pj)
    then show ?thesis by auto
  next
    assume "e \<in> set evs'"
    then have "e \<in> set (snd (processJobsWith body type rb js (if d then c @ [j] else c) (h @ evs)))"
      by (simp add: rest)
    from Cons.IH [OF this] show ?thesis by auto
  qed
qed

lemma processJobs_reconcile:
  "e \<in> set (snd (processJobs w type rb jobs c h)) \<Longrightarrow> isReconcile e"
  unfolding processJobs_def
  by (drule processJobsWith_events) (auto simp: processJob_def [symmetric] processJob_reconcile)

lemma processJobsWith_completed:
  "j \<in> set (fst (processJobsWith body type rb jobs c h)) \<Longrightarrow>
   j \<in> set c \<or> (\<exists>r. rb (j_id j) = Some r \<and> is_boolean (r_is_nsfw r))"
proof (induction jobs arbitrary: c h)
  case Nil
  then show ?case by simp
next
  case (Cons x xs)
  obtain d evs where pj: "processJobWith body type rb x h = (d, evs)"
    by (cases "processJobWith body type rb x h")
  have dx: "d \<Longrightarrow> \<exists>r. rb (j_id x) = Some r \<and> is_boolean (r_is_nsfw r)"
    using pj by (auto simp: processJobWith_def split: option.splits if_splits)
  from Cons.prems
  have "j \<in> set (fst (processJobsWith body type rb xs (if d then c @ [x] else c) (h @ evs)))"
    by (cases d) (auto simp: pj split: prod.splits)
  from Cons.IH [OF this] dx show ?case
    by (auto split: if_splits)
qed

lemma processJobsWith_append:
  "processJobsWith body type rb (xs @ ys) c h =
     (case processJobsWith body type rb xs c h of
        (c1, e1) \<Rightarrow>
          (case processJobsWith body type rb ys c1 (h @ e1) of
             (c2, e2) \<Rightarrow> (c2, e1 @ e2)))"
  by (induction xs arbitrary: c h) (simp_all split: prod.split)

lemma finishBatch_events:
  "e \<in> set (finishBatch w h c) \<Longrightarrow>
   (\<exists>out. e = MarkJobsAsComplete c out) \<or> (\<exists>l. e = LogSystemEvent l)"
  by (auto simp: finishBatch_def Let_def split: option.splits)

lemma fetch_ok_events:
  assumes "fetchResults w h jobs type = (Inr results, evs)" and "e \<in> set evs"
  shows "\<not> isSideEffect e"
proof
  assume "isSideEffect e"
  with assms(2) have "e \<in> set (filter isSideEffect evs)"
    by simp
  then show False
    by (simp add: fetch_ok_no_side_effects [OF assms(1)])
qed

lemma is_boolean_iff: "is_boolean v \<longleftrightarrow> (\<exists>b. v = JBool b)"
  by (cases v) (simp_all add: is_boolean_def)

lemma missingResult_explicit:
  "missingResult job =
     LogSystemEvent
       \<lparr>l_action = ''error'',
        l_description = Some (''[Scanner] Invalid or missing result for media '' @ j_id job),
        l_error_name = Some ''scan_result_missing'',
        l_target_id = Some (j_id job), l_metadata = []\<rparr>"
  by (simp add: missingResult_def errorLog_def)

lemma mediaItem_ignores_error: "mediaItemOf job (r\<lparr>r_error := e\<rparr>) = mediaItemOf job r"
  by (simp add: mediaItemOf_def)

lemma commit_ignores_error:
  "commit w h job (r\<lparr>r_error := e\<rparr>) = commit w h job r"
  by (simp only: commit_def mediaItem_ignores_error)

lemma commit_starts_with_move:
  "\<exists>out rest. snd (commit w h job r) = MoveObjectWithinBuckets (commitArgs job) out # rest"
  by (simp add: commit_def Let_def split: option.split)

text \<open>
  Claim C2, as amended. When the backend's result list was read (every element of it
  an object) and the index holds no verdict for a job, or one whose \<open>is_nsfw\<close> is not
  a boolean, the job is skipped: the one call made for it is the audit event written
  out below (action \<open>error\<close>, error name \<open>scan_result_missing\<close>, the job as target),
  so no move, no metadata write, no blocklist insert and no user restriction; it is
  not pushed to the completed jobs, and no call of \<^verbatim>\<open>markJobsAsComplete\<close> made by
  \<^verbatim>\<open>scanMediaJobs\<close> contains it. A verdict that carries an error next to a boolean
  \<open>is_nsfw\<close> is no such failure: the job is reconciled exactly as if the error were
  absent, and with \<open>is_nsfw = false\<close> its first call is the move of its object.
\<close>

theorem missing_verdict_skipped:
  assumes "fetchResults w h jobs type = (Inr results, evs)"
    and "resultsById results (j_id job) = None
         \<or> (\<exists>r. resultsById results (j_id job) = Some r \<and> (\<forall>b. r_is_nsfw r \<noteq> JBool b))"
  shows "processJob w type (resultsById results) job h' =
           (False,
            [LogSystemEvent
               \<lparr>l_action = ''error'',
                l_description =
                  Some (''[Scanner] Invalid or missing result for media '' @ j_id job),
                l_error_name = Some ''scan_result_missing'',
                l_target_id = Some (j_id job), l_metadata = []\<rparr>])
       \<and> \<not> (\<exists>js out. MarkJobsAsComplete js out \<in> set (snd (scanMediaJobs w h jobs type))
                     \<and> job \<in> set js)
       \<and> (\<forall>rb r e b. r_is_nsfw r = JBool b \<longrightarrow>
             processJob w type (rb(j_id job \<mapsto> r\<lparr>r_error := Some e\<rparr>)) job h'
               = processJob w type (rb(j_id job \<mapsto> r\<lparr>r_error := None\<rparr>)) job h')
       \<and> (\<forall>rb r e. r_is_nsfw r = JBool False \<longrightarrow>
             (\<exists>args out rest.
                snd (processJob w type (rb(j_id job \<mapsto> r\<lparr>r_error := Some e\<rparr>)) job h')
                  = MoveObjectWithinBuckets args out # rest
                \<and> mv_fromKey args = j_file_name job))"
proof (intro conjI allI impI)
  have inv: "resultsById results (j_id job) = None
         \<or> (\<exists>r. resultsById results (j_id job) = Some r \<and> \<not> is_boolean (r_is_nsfw r))"
    using assms(2) by (simp add: is_boolean_iff)
  then show "processJob w type (resultsById results) job h' =
           (False,
            [LogSystemEvent
               \<lparr>l_action = ''error'',
                l_description =
                  Some (''[Scanner] Invalid or missing result for media '' @ j_id job),
                l_error_name = Some ''scan_result_missing'',
                l_target_id = Some (j_id job), l_metadata = []\<rparr>])"
    by (simp only: processJob_missing missingResult_explicit)
next
  fix rb :: "string \<rightharpoonup> verdict" and r :: verdict and e :: string and b :: bool
  assume nsfw: "r_is_nsfw r = JBool b"
  show "processJob w type (rb(j_id job \<mapsto> r\<lparr>r_error := Some e\<rparr>)) job h'
               = processJob w type (rb(j_id job \<mapsto> r\<lparr>r_error := None\<rparr>)) job h'"
  proof (cases b)
    case True
    then show ?thesis
      using nsfw
      by (simp add: processJob_nsfw [where result = "r\<lparr>r_error := Some e\<rparr>"]
          processJob_nsfw [where result = "r\<lparr>r_error := None\<rparr>"])
  next
    case False
    then show ?thesis
      using nsfw
      by (simp add: processJob_safe [where result = "r\<lparr>r_error := Some e\<rparr>"]
          processJob_safe [where result = "r\<lparr>r_error := None\<rparr>"] commit_ignores_error)
  qed
next
  fix rb :: "string \<rightharpoonup> verdict" and r :: verdict and e :: string
  assume nsfw: "r_is_nsfw r = JBool False"
  have "processJob w type (rb(j_id job \<mapsto> r\<lparr>r_error := Some e\<rparr>)) job h'
          = commit w h' job (r\<lparr>r_error := Some e\<rparr>)"
    using nsfw by (simp add: processJob_safe [where result = "r\<lparr>r_error := Some e\<rparr>"])
  moreover have "mv_fromKey (commitArgs job) = j_file_name job"
    by (simp add: commitArgs_def)
  ultimately show "\<exists>args out rest.
                snd (processJob w type (rb(j_id job \<mapsto> r\<lparr>r_error := Some e\<rparr>)) job h')
                  = MoveObjectWithinBuckets args out # rest
                \<and> mv_fromKey args = j_file_name job"
    using commit_starts_with_move [of w h' job "r\<lparr>r_error := Some e\<rparr>"] by auto
next
  have inv: "resultsById results (j_id job) = None
         \<or> (\<exists>r. resultsById results (j_id job) = Some r \<and> \<not> is_boolean (r_is_nsfw r))"
    using assms(2) by (simp add: is_boolean_iff)
  show "\<not> (\<exists>js out. MarkJobsAsComplete js out \<in> set (snd (scanMediaJobs w h jobs type))
                     \<and> job \<in> set js)"
  proof
    assume "\<exists>js out. MarkJobsAsComplete js out \<in> set (snd (scanMediaJobs w h jobs type))
                     \<and> job \<in> set js"
    then obtain js out
      where mem: "MarkJobsAsComplete js out \<in> set (snd (scanMediaJobs w h jobs type))"
        and jm: "job \<in> set js"
      by blast
    obtain c evs2 where pj: "processJobs w type (resultsById results) jobs [] (h @ evs) = (c, evs2)"
      by (cases "processJobs w type (resultsById results) jobs [] (h @ evs)")
    have n1: "MarkJobsAsComplete js out \<notin> set evs"
      using fetch_ok_events [OF assms(1), of "MarkJobsAsComplete js out"] by auto
    have n2: "MarkJobsAsComplete js out \<notin> set evs2"
      using processJobs_reconcile [of "MarkJobsAsComplete js out" w type "resultsById results" jobs "[]" "h @ evs"]
      by (auto simp: pj)
    have "MarkJobsAsComplete js out \<in> set (finishBatch w (h @ evs @ evs2) c)"
      using mem n1 n2 by (simp add: scanMediaJobs_def assms(1) pj split: if_splits)
    then have "js = c"
      by (auto dest: finishBatch_events)
    with jm have "job \<in> set (fst (processJobsWith (reconcileBody w) type (resultsById results) jobs [] (h @ evs)))"
      using pj by (simp add: processJobs_def)
    from processJobsWith_completed [OF this] inv show False
      by auto
  qed
qed









lemma reconcileBody_returns: "\<not> isl (fst (reconcileBody w type job r h))"
  by (simp add: reconcileBody_def split: prod.split)

lemma unexpectedError_explicit:
  "unexpectedError job err =
     LogSystemEvent
       \<lparr>l_action = ''error'',
        l_description =
          Some (''Unexpected error while processing job '' @ j_id job @ '': '' @ message err),
        l_error_name = Some ''unexpected_job_processing_error'',
        l_target_id = Some (j_id job), l_metadata = []\<rparr>"
  by (simp add: unexpectedError_def errorLog_def)

lemma errorLog_target [simp]: "l_target_id (errorLog t d n) = Some t"
  by (simp add: errorLog_def)

lemma commit_failure_logged:
  assumes "\<not> fst (commit w h job r)"
  shows "\<exists>l. LogSystemEvent l \<in> set (snd (commit w h job r))
             \<and> l_action l = ''error'' \<and> l_target_id l = Some (j_id job)"
proof (cases "s3_move w h (commitArgs job)")
  case (Some err)
  then show ?thesis
    by (simp add: commit_def Let_def)
next
  case None
  then obtain err where
    "createMediaItem w (h @ [MoveObjectWithinBuckets (commitArgs job) None]) (mediaItemOf job r)
       = Some err"
    using assms by (auto simp: commit_def Let_def split: option.splits)
  then show ?thesis
    using None by (simp add: commit_def Let_def)
qed

lemma processJob_failure_logged:
  assumes "\<not> fst (processJob w type rb job h)"
  shows "\<exists>l. LogSystemEvent l \<in> set (snd (processJob w type rb job h))
             \<and> l_action l = ''error'' \<and> l_target_id l = Some (j_id job)"
proof (cases "rb (j_id job)")
  case None
  then show ?thesis
    by (simp add: processJob_missing missingResult_def)
next
  case (Some r)
  show ?thesis
  proof (cases "is_boolean (r_is_nsfw r)")
    case False
    then show ?thesis
      using Some by (simp add: processJob_missing missingResult_def)
  next
    case True
    then consider "r_is_nsfw r = JBool True" | "r_is_nsfw r = JBool False"
      using is_boolean_cases by blast
    then show ?thesis
    proof cases
      case 1
      then show ?thesis
        using assms Some by (simp add: processJob_nsfw)
    next
      case 2
      then have "processJob w type rb job h = commit w h job r"
        using Some by (simp add: processJob_safe)
      then show ?thesis
        using assms commit_failure_logged [of w h job r] by simp
    qed
  qed
qed

lemma processJobsWith_keeps:
  "set c \<subseteq> set (fst (processJobsWith body type rb jobs c h))"
proof (induction jobs arbitrary: c h)
  case Nil
  then show ?case by simp
next
  case (Cons x xs)
  obtain d evs where pj: "processJobWith body type rb x h = (d, evs)"
    by (cases "processJobWith body type rb x h")
  have a: "set c \<subseteq> set (if d then c @ [x] else c)"
    by auto
  have b: "set (if d then c @ [x] else c)
      \<subseteq> set (fst (processJobsWith body type rb xs (if d then c @ [x] else c) (h @ evs)))"
    by (rule Cons.IH)
  have "fst (processJobsWith body type rb (x # xs) c h)
      = fst (processJobsWith body type rb xs (if d then c @ [x] else c) (h @ evs))"
    by (simp add: pj split: prod.split)
  with a b show ?case
    by (simp only:)
qed

lemma processJobs_none_dropped:
  assumes "j \<in> set jobs"
  shows "j \<in> set (fst (processJobs w type rb jobs c h))
       \<or> (\<exists>l. LogSystemEvent l \<in> set (snd (processJobs w type rb jobs c h))
               \<and> l_action l = ''error'' \<and> l_target_id l = Some (j_id j))"
  using assms
proof (induction jobs arbitrary: c h)
  case Nil
  then show ?case by simp
next
  case (Cons x xs)
  obtain d evs where pj: "processJob w type rb x h = (d, evs)"
    by (cases "processJob w type rb x h")
  obtain c' evs' where rest:
    "processJobs w type rb xs (if d then c @ [x] else c) (h @ evs) = (c', evs')"
    by (cases "processJobs w type rb xs (if d then c @ [x] else c) (h @ evs)")
  have whole: "processJobs w type rb (x # xs) c h = (c', evs @ evs')"
    using pj rest by (simp add: processJobs_def processJob_def)
  show ?case
  proof (cases "j = x")
    case True
    show ?thesis
    proof (cases d)
      case True
      have "set (c @ [x]) \<subseteq> set (fst (processJobsWith (reconcileBody w) type rb xs (c @ [x]) (h @ evs)))"
        by (rule processJobsWith_keeps)
      then have "x \<in> set c'"
        using rest True by (auto simp: processJobs_def)
      then show ?thesis
        using \<open>j = x\<close> by (simp add: whole)
    next
      case False
      then have "\<not> fst (processJob w type rb x h)"
        by (simp add: pj)
      from processJob_failure_logged [OF this] show ?thesis
        using \<open>j = x\<close> by (auto simp: whole pj)
    qed
  next
    case False
    then have "j \<in> set xs"
      using Cons.prems by simp
    from Cons.IH [OF this, of "if d then c @ [x] else c" "h @ evs"] show ?thesis
      by (auto simp: whole rest)
  qed
qed

text \<open>
  Claim C8. The loop over a batch handles the jobs before a job, then that job, then
  the jobs after it, from the trace and the completed jobs reached so far, whatever
  happened for that job; this holds for any block of the per-job \<^verbatim>\<open>try\<close> and so for
  the block the orchestrator runs. When the block throws for a job with a valid
  verdict, the job is not completed and the call added is the audit event written out
  below (action \<open>error\<close>, error name \<open>unexpected_job_processing_error\<close>, the job as
  target, the error's message in the description). The orchestrator's own block never
  throws, each failing call being handled where it is made; a job it does not complete
  has an \<open>error\<close> event with the job as target in its trace; and no job of a batch is
  dropped silently: it is among the completed jobs or such an event was logged for it.
\<close>

theorem job_errors_isolated:
  "processJobsWith body type rb (pre @ job # post) c h =
     (case processJobsWith body type rb pre c h of
        (c1, e1) \<Rightarrow>
          (case processJobWith body type rb job (h @ e1) of
             (done, e2) \<Rightarrow>
               (case processJobsWith body type rb post (if done then c1 @ [job] else c1)
                       (h @ e1 @ e2) of
                  (c3, e3) \<Rightarrow> (c3, e1 @ e2 @ e3))))
   \<and> (\<forall>r b err evs h'.
         rb (j_id job) = Some r \<and> r_is_nsfw r = JBool b \<and> body type job r h' = (Inl err, evs)
         \<longrightarrow> processJobWith body type rb job h' =
               (False,
                evs @ [LogSystemEvent
                         \<lparr>l_action = ''error'',
                          l_description =
                            Some (''Unexpected error while processing job '' @ j_id job
                                    @ '': '' @ message err),
                          l_error_name = Some ''unexpected_job_processing_error'',
                          l_target_id = Some (j_id job), l_metadata = []\<rparr>]))
   \<and> (\<forall>w r h'. \<not> isl (fst (reconcileBody w type job r h')))
   \<and> (\<forall>w. processJobs w type rb (pre @ job # post) c h =
         (case processJobs w type rb pre c h of
            (c1, e1) \<Rightarrow>
              (case processJob w type rb job (h @ e1) of
                 (done, e2) \<Rightarrow>
                   (case processJobs w type rb post (if done then c1 @ [job] else c1)
                           (h @ e1 @ e2) of
                      (c3, e3) \<Rightarrow> (c3, e1 @ e2 @ e3)))))
   \<and> (\<forall>w h'. \<not> fst (processJob w type rb job h') \<longrightarrow>
         (\<exists>l. LogSystemEvent l \<in> set (snd (processJob w type rb job h'))
              \<and> l_action l = ''error'' \<and> l_target_id l = Some (j_id job)))
   \<and> (\<forall>w. job \<in> set (fst (processJobs w type rb (pre @ job # post) c h))
         \<or> (\<exists>l. LogSystemEvent l \<in> set (snd (processJobs w type rb (pre @ job # post) c h))
                 \<and> l_action l = ''error'' \<and> l_target_id l = Some (j_id job)))"
proof (intro conjI allI impI)
  show "processJobsWith body type rb (pre @ job # post) c h =
     (case processJobsWith body type rb pre c h of
        (c1, e1) \<Rightarrow>
          (case processJobWith body type rb job (h @ e1) of
             (done, e2) \<Rightarrow>
               (case processJobsWith body type rb post (if done then c1 @ [job] else c1)
                       (h @ e1 @ e2) of
                  (c3, e3) \<Rightarrow> (c3, e1 @ e2 @ e3))))"
    by (simp add: processJobsWith_append split: prod.split)
next
  fix r b err evs h'
  assume "rb (j_id job) = Some r \<and> r_is_nsfw r = JBool b \<and> body type job r h' = (Inl err, evs)"
  then show "processJobWith body type rb job h' =
               (False,
                evs @ [LogSystemEvent
                         \<lparr>l_action = ''error'',
                          l_description =
                            Some (''Unexpected error while processing job '' @ j_id job
                                    @ '': '' @ message err),
                          l_error_name = Some ''unexpected_job_processing_error'',
                          l_target_id = Some (j_id job), l_metadata = []\<rparr>])"
    by (simp add: processJobWith_def catchUnexpected_def is_boolean_def
        unexpectedError_def errorLog_def)
next
  fix w r h'
  show "\<not> isl (fst (reconcileBody w type job r h'))"
    by (rule reconcileBody_returns)
next
  fix w
  show "processJobs w type rb (pre @ job # post) c h =
         (case processJobs w type rb pre c h of
            (c1, e1) \<Rightarrow>
              (case processJob w type rb job (h @ e1) of
                 (done, e2) \<Rightarrow>
                   (case processJobs w type rb post (if done then c1 @ [job] else c1)
                           (h @ e1 @ e2) of
                      (c3, e3) \<Rightarrow> (c3, e1 @ e2 @ e3))))"
    by (simp add: processJobs_def processJob_def processJobsWith_append split: prod.split)
next
  fix w h'
  assume "\<not> fst (processJob w type rb job h')"
  then show "\<exists>l. LogSystemEvent l \<in> set (snd (processJob w type rb job h'))
              \<and> l_action l = ''error'' \<and> l_target_id l = Some (j_id job)"
    by (rule processJob_failure_logged)
next
  fix w
  show "job \<in> set (fst (processJobs w type rb (pre @ job # post) c h))
         \<or> (\<exists>l. LogSystemEvent l \<in> set (snd (processJobs w type rb (pre @ job # post) c h))
                 \<and> l_action l = ''error'' \<and> l_target_id l = Some (j_id job))"
    by (rule processJobs_none_dropped) simp
qed

lemma sampleWorld_simps [simp]:
  "remote (sampleWorld scan vision moved blocked) h pl = scan"
  "axios_post (sampleWorld scan vision moved blocked) h rq = vision"
  "s3_move (sampleWorld scan vision moved blocked) h args = moved"
  "insert_blocked_hash (sampleWorld scan vision moved blocked) h b = blocked"
  "insert_media (sampleWorld scan vision moved blocked) h item = None"
  "update_complete (sampleWorld scan vision moved blocked) h ids = None"
  by (simp_all add: sampleWorld_def)

lemma sample_ids [simp]: "j_id sampleVideo = ''job-2''" "j_id sampleImage = ''job-1''"
  by (simp_all add: sampleVideo_def sampleImage_def)

lemma processJobs_single:
  "processJobs w type rb [job] c h =
     (if fst (processJob w type rb job h) then c @ [job] else c,
      snd (processJob w type rb job h))"
  by (simp add: processJobs_def processJob_def split: prod.split)

lemma fetch_videos:
  "those rs = Some vs \<Longrightarrow>
   fetchResults (sampleWorld (Resolves (Results rs)) vision moved blocked) h jobs ''videos'' =
     (Inr vs, [RemoteCall (prepareJobs jobs ''videos'') (Resolves (Results rs))])"
  by (simp add: fetchResults_def withRetry_0 attemptResult_def resultEntries_def Let_def)

text \<open>
  A batch of one video that the remote backend flags: the hypotheses of C1 hold and
  no approved record is created.
\<close>

theorem nsfw_never_approved_witness:
  "fetchResults flaggedWorld [] [sampleVideo] ''videos'' =
     (Inr [flaggedVerdict],
      [RemoteCall (prepareJobs [sampleVideo] ''videos'') (Resolves (Results [Some flaggedVerdict]))])
   \<and> resultsById [flaggedVerdict] (j_id sampleVideo) = Some flaggedVerdict
   \<and> r_is_nsfw flaggedVerdict = JBool True
   \<and> \<not> (\<exists>item out.
           CreateMediaItem item out \<in> set (snd (scanMediaJobs flaggedWorld [] [sampleVideo] ''videos''))
           \<and> m_job_id item = j_id sampleVideo)"
proof -
  have a: "fetchResults flaggedWorld [] [sampleVideo] ''videos'' =
     (Inr [flaggedVerdict],
      [RemoteCall (prepareJobs [sampleVideo] ''videos'') (Resolves (Results [Some flaggedVerdict]))])"
    by (simp add: flaggedWorld_def fetch_videos)
  have b: "resultsById [flaggedVerdict] (j_id sampleVideo) = Some flaggedVerdict"
    by (simp add: resultsById_def flaggedVerdict_def sampleVerdict_def)
  have c: "r_is_nsfw flaggedVerdict = JBool True"
    by (simp add: flaggedVerdict_def sampleVerdict_def)
  from nsfw_never_approved [OF a b c] a b c show ?thesis
    by simp
qed

text \<open>
  The remote backend returns an empty result list for a batch of one video; and a
  cleared verdict is reconciled the same with and without an error attached.
\<close>

theorem missing_verdict_skipped_witness:
  "fetchResults silentWorld [] [sampleVideo] ''videos'' =
     (Inr [], [RemoteCall (prepareJobs [sampleVideo] ''videos'') (Resolves (Results []))])
   \<and> resultsById [] (j_id sampleVideo) = None
   \<and> processJob silentWorld ''videos'' (resultsById []) sampleVideo [] =
       (False,
        [LogSystemEvent
           \<lparr>l_action = ''error'',
            l_description = Some ''[Scanner] Invalid or missing result for media job-2'',
            l_error_name = Some ''scan_result_missing'',
            l_target_id = Some ''job-2'', l_metadata = []\<rparr>])
   \<and> \<not> (\<exists>js out.
           MarkJobsAsComplete js out \<in> set (snd (scanMediaJobs silentWorld [] [sampleVideo] ''videos''))
           \<and> sampleVideo \<in> set js)
   \<and> r_is_nsfw clearedVerdict = JBool False
   \<and> processJob silentWorld ''videos''
        ((resultsById [])(j_id sampleVideo \<mapsto> clearedVerdict\<lparr>r_error := Some ''timeout''\<rparr>))
        sampleVideo []
       = processJob silentWorld ''videos''
           ((resultsById [])(j_id sampleVideo \<mapsto> clearedVerdict\<lparr>r_error := None\<rparr>))
           sampleVideo []"
proof -
  have a: "fetchResults silentWorld [] [sampleVideo] ''videos'' =
     (Inr [], [RemoteCall (prepareJobs [sampleVideo] ''videos'') (Resolves (Results []))])"
    by (simp add: silentWorld_def fetch_videos)
  have b: "resultsById [] (j_id sampleVideo) = None"
    by (simp add: resultsById_def)
  have c: "r_is_nsfw clearedVerdict = JBool False"
    by (simp add: clearedVerdict_def sampleVerdict_def)
  note t = missing_verdict_skipped [where h' = "[]", OF a disjI1 [OF b]]
  have d: "processJob silentWorld ''videos''
        ((resultsById [])(j_id sampleVideo \<mapsto> clearedVerdict\<lparr>r_error := Some ''timeout''\<rparr>))
        sampleVideo []
       = processJob silentWorld ''videos''
           ((resultsById [])(j_id sampleVideo \<mapsto> clearedVerdict\<lparr>r_error := None\<rparr>))
           sampleVideo []"
    using t c by blast
  from t a b c d show ?thesis
    by simp
qed

text \<open>
  Claim C2 as stated fails: the per-image backend reports an image it could not
  analyse as \<open>is_nsfw = false\<close> with the error attached, and the orchestrator then
  takes the commit path for that job and moves its object to the bucket of its type.
\<close>

theorem errored_verdict_counterexample:
  "fst (fetchResults visionErrorWorld [] [sampleImage] ''images'') = Inr [erroredVerdict]
   \<and> r_error erroredVerdict = Some ''Bad image data''
   \<and> MoveObjectWithinBuckets
        \<lparr>mv_fromKey = ''images/jo/job-1.jpeg'', mv_toBucket = BucketName ''posts-media'',
         mv_toKey = ''images/jo/job-1.jpeg''\<rparr> None
       \<in> set (snd (scanMediaJobs visionErrorWorld [] [sampleImage] ''images''))"
proof -
  have a: "fetchResults visionErrorWorld [] [sampleImage] ''images'' =
      (Inr [erroredVerdict],
       [VisionPost [j_url sampleImage]
          (AxiosData (Some [\<lparr>v_error = Some ''Bad image data'',
                             v_safeSearchAnnotation = None\<rparr>]))])"
    by (simp add: fetchResults_def safeSearchFromUrls_def visionErrorWorld_def Let_def
        visionVerdict_def erroredVerdict_def)
  have b: "resultsById [erroredVerdict] (j_id sampleImage) = Some erroredVerdict"
    by (simp add: resultsById_def erroredVerdict_def)
  have c: "r_is_nsfw erroredVerdict = JBool False"
    by (simp add: erroredVerdict_def)
  have d: "processJob visionErrorWorld ''images'' (resultsById [erroredVerdict]) sampleImage h =
      commit visionErrorWorld h sampleImage erroredVerdict" for h
    using b c by (rule processJob_safe)
  have args: "commitArgs sampleImage =
      \<lparr>mv_fromKey = ''images/jo/job-1.jpeg'', mv_toBucket = BucketName ''posts-media'',
       mv_toKey = ''images/jo/job-1.jpeg''\<rparr>"
    by (simp add: commitArgs_def getTargetBucket_def bucketMap_def toKey_def prefixTypes_def
        sampleImage_def)
  have e: "MoveObjectWithinBuckets (commitArgs sampleImage) None
       \<in> set (snd (commit visionErrorWorld h sampleImage erroredVerdict))" for h
    by (simp add: commit_def Let_def visionErrorWorld_def split: option.split)
  have f: "r_error erroredVerdict = Some ''Bad image data''"
    by (simp add: erroredVerdict_def)
  show ?thesis
    using e [unfolded args] by (simp add: a f scanMediaJobs_def processJobs_single d)
qed

text \<open>
  A cleared video whose move fails: not completed, no metadata record.
\<close>

theorem commit_needs_move_and_record_witness:
  "resultsById [clearedVerdict] (j_id sampleVideo) = Some clearedVerdict
   \<and> r_is_nsfw clearedVerdict = JBool False
   \<and> s3_move moveFailsWorld [] (commitArgs sampleVideo) = Some (Error ''NoSuchKey'')
   \<and> \<not> fst (processJob moveFailsWorld ''videos'' (resultsById [clearedVerdict]) sampleVideo [])
   \<and> \<not> (\<exists>item out. CreateMediaItem item out
            \<in> set (snd (processJob moveFailsWorld ''videos'' (resultsById [clearedVerdict])
                          sampleVideo [])))"
proof -
  have a: "resultsById [clearedVerdict] (j_id sampleVideo) = Some clearedVerdict"
    by (simp add: resultsById_def clearedVerdict_def sampleVerdict_def)
  have b: "r_is_nsfw clearedVerdict = JBool False"
    by (simp add: clearedVerdict_def sampleVerdict_def)
  have c: "s3_move moveFailsWorld [] (commitArgs sampleVideo) = Some (Error ''NoSuchKey'')"
    by (simp add: moveFailsWorld_def)
  from commit_needs_move_and_record
         [where rb = "resultsById [clearedVerdict]" and job = sampleVideo
            and result = clearedVerdict and w = moveFailsWorld and h = "[]"
            and type = "''videos''", OF a b] a b c
  show ?thesis
    by (simp add: Let_def)
qed

text \<open>
  A flagged video whose blocklist insert and whose move to quarantine both fail: all
  four steps are made, both failures are logged, and the job is completed.
\<close>

theorem quarantine_steps_independent_witness:
  "resultsById [flaggedVerdict] (j_id sampleVideo) = Some flaggedVerdict
   \<and> r_is_nsfw flaggedVerdict = JBool True
   \<and> fst (processJob flaggedWorld ''videos'' (resultsById [flaggedVerdict]) sampleVideo [])
   \<and> snd (processJob flaggedWorld ''videos'' (resultsById [flaggedVerdict]) sampleVideo []) =
       [AddBlockedHash
          \<lparr>b_hash_value = ''b7c2'', b_hash_type = ''sha256'', b_detected_type = ''nsfw'',
           b_source_type = ''video'', b_detected_by = ''media_scanner'',
           b_file_key = ''project/videos/jo/job-2.mp4''\<rparr>
          (Some (Error ''blocklist unavailable'')),
        LogSystemEvent
          \<lparr>l_action = ''error'',
           l_description = Some ''Failed to add blocked hash for job-2: blocklist unavailable'',
           l_error_name = Some ''blocked_hash_add_failed'',
           l_target_id = Some ''job-2'', l_metadata = []\<rparr>,
        RestrictUserMediaUploads ''user-2'',
        LogSystemEvent
          \<lparr>l_action = ''unsafe_content_detected'',
           l_description = Some ''NSFW detected in video with ID job-2'',
           l_error_name = None, l_target_id = Some ''job-2'',
           l_metadata = [(''file_name'', Some ''videos/jo/job-2.mp4''),
                         (''user_id'', Some ''user-2''),
                         (''linked_to_type'', Some ''project'')]\<rparr>,
        MoveObjectWithinBuckets
          \<lparr>mv_fromKey = ''videos/jo/job-2.mp4'', mv_toBucket = BucketName ''quarantine'',
           mv_toKey = ''videos/jo/job-2.mp4''\<rparr>
          (Some (Error ''AccessDenied'')),
        LogSystemEvent
          \<lparr>l_action = ''error'',
           l_description = Some ''Failed to move NSFW item job-2 to quarantine: AccessDenied'',
           l_error_name = Some ''quarantine_move_failed'',
           l_target_id = Some ''job-2'', l_metadata = []\<rparr>]"
proof -
  have a: "resultsById [flaggedVerdict] (j_id sampleVideo) = Some flaggedVerdict"
    by (simp add: resultsById_def flaggedVerdict_def sampleVerdict_def)
  have b: "r_is_nsfw flaggedVerdict = JBool True"
    by (simp add: flaggedVerdict_def sampleVerdict_def)
  note t = quarantine_steps_independent
         [where rb = "resultsById [flaggedVerdict]" and job = sampleVideo
            and result = flaggedVerdict and w = flaggedWorld and h = "[]"
            and type = "''videos''", OF a b]
  have e: "fst (processJob flaggedWorld ''videos'' (resultsById [flaggedVerdict]) sampleVideo [])"
    by (rule t [THEN conjunct1])
  have p: "processJob flaggedWorld ''videos'' (resultsById [flaggedVerdict]) sampleVideo []
      = (True, quarantine flaggedWorld [] ''videos'' sampleVideo)"
    using a b by (rule processJob_nsfw)
  have q: "quarantine flaggedWorld [] ''videos'' sampleVideo =
       [AddBlockedHash
          \<lparr>b_hash_value = ''b7c2'', b_hash_type = ''sha256'', b_detected_type = ''nsfw'',
           b_source_type = ''video'', b_detected_by = ''media_scanner'',
           b_file_key = ''project/videos/jo/job-2.mp4''\<rparr>
          (Some (Error ''blocklist unavailable'')),
        LogSystemEvent
          \<lparr>l_action = ''error'',
           l_description = Some ''Failed to add blocked hash for job-2: blocklist unavailable'',
           l_error_name = Some ''blocked_hash_add_failed'',
           l_target_id = Some ''job-2'', l_metadata = []\<rparr>,
        RestrictUserMediaUploads ''user-2'',
        LogSystemEvent
          \<lparr>l_action = ''unsafe_content_detected'',
           l_description = Some ''NSFW detected in video with ID job-2'',
           l_error_name = None, l_target_id = Some ''job-2'',
           l_metadata = [(''file_name'', Some ''videos/jo/job-2.mp4''),
                         (''user_id'', Some ''user-2''),
                         (''linked_to_type'', Some ''project'')]\<rparr>,
        MoveObjectWithinBuckets
          \<lparr>mv_fromKey = ''videos/jo/job-2.mp4'', mv_toBucket = BucketName ''quarantine'',
           mv_toKey = ''videos/jo/job-2.mp4''\<rparr>
          (Some (Error ''AccessDenied'')),
        LogSystemEvent
          \<lparr>l_action = ''error'',
           l_description = Some ''Failed to move NSFW item job-2 to quarantine: AccessDenied'',
           l_error_name = Some ''quarantine_move_failed'',
           l_target_id = Some ''job-2'', l_metadata = []\<rparr>]"
    by (simp add: quarantine_def Let_def blockHashStep_def restrictStep_def logUnsafeStep_def
        quarantineMoveStep_def quarantineArgs_def errorLog_def blockedHashOf_def toKey_def
        prefixTypes_def addBlockedHash_def startsWith_def flaggedWorld_def sampleVideo_def)
  from a b e show ?thesis
    by (simp only: p snd_conv q)
qed




text \<open>
  A block that throws for the first job of a batch of two: the error is logged, the
  job is not completed, and the second job is handled. And the orchestrator's block
  on a video whose move fails: the failure is logged and the next job is handled.
\<close>

theorem job_errors_isolated_witness:
  "resultsById [sampleVerdict ''job-1'' (JBool False)] (j_id sampleImage)
     = Some (sampleVerdict ''job-1'' (JBool False))
   \<and> r_is_nsfw (sampleVerdict ''job-1'' (JBool False)) = JBool False
   \<and> throwingBody ''images'' sampleImage (sampleVerdict ''job-1'' (JBool False)) []
       = (Inl (Error ''defect''), [])
   \<and> processJobsWith throwingBody ''images''
       (resultsById [sampleVerdict ''job-1'' (JBool False)]) ([] @ sampleImage # [sampleVideo]) [] []
       = ([],
          [LogSystemEvent
             \<lparr>l_action = ''error'',
              l_description = Some ''Unexpected error while processing job job-1: defect'',
              l_error_name = Some ''unexpected_job_processing_error'',
              l_target_id = Some ''job-1'', l_metadata = []\<rparr>,
           LogSystemEvent
             \<lparr>l_action = ''error'',
              l_description = Some ''[Scanner] Invalid or missing result for media job-2'',
              l_error_name = Some ''scan_result_missing'',
              l_target_id = Some ''job-2'', l_metadata = []\<rparr>])
   \<and> processJobs moveFailsWorld ''videos'' (resultsById [clearedVerdict])
       ([] @ sampleVideo # [sampleImage]) [] []
       = ([],
          [MoveObjectWithinBuckets
             \<lparr>mv_fromKey = ''videos/jo/job-2.mp4'',
              mv_toBucket = BucketName ''talent-profiles-media'',
              mv_toKey = ''project/videos/jo/job-2.mp4''\<rparr>
             (Some (Error ''NoSuchKey'')),
           LogSystemEvent
             \<lparr>l_action = ''error'',
              l_description =
                Some ''Failed to move media item for job job-2 to talent-profiles-media: NoSuchKey'',
              l_error_name = Some ''media_move_failed'',
              l_target_id = Some ''job-2'', l_metadata = []\<rparr>,
           LogSystemEvent
             \<lparr>l_action = ''error'',
              l_description = Some ''[Scanner] Invalid or missing result for media job-1'',
              l_error_name = Some ''scan_result_missing'',
              l_target_id = Some ''job-1'', l_metadata = []\<rparr>])"
proof -
  have a: "resultsById [sampleVerdict ''job-1'' (JBool False)] (j_id sampleImage)
     = Some (sampleVerdict ''job-1'' (JBool False))"
    by (simp add: resultsById_def sampleVerdict_def)
  have b: "r_is_nsfw (sampleVerdict ''job-1'' (JBool False)) = JBool False"
    by (simp add: sampleVerdict_def)
  have c: "throwingBody ''images'' sampleImage (sampleVerdict ''job-1'' (JBool False)) []
       = (Inl (Error ''defect''), [])"
    by (simp add: throwingBody_def)
  have d: "resultsById [sampleVerdict ''job-1'' (JBool False)] (j_id sampleVideo) = None"
    by (simp add: resultsById_def sampleVerdict_def)
  have e: "processJobWith throwingBody ''images''
       (resultsById [sampleVerdict ''job-1'' (JBool False)]) sampleVideo h
       = (False, [missingResult sampleVideo])" for h
    using d by (simp add: processJobWith_def)
  note t = job_errors_isolated [of throwingBody "''images''"
      "resultsById [sampleVerdict ''job-1'' (JBool False)]" "[]" sampleImage "[sampleVideo]" "[]" "[]"]
  from t have f: "processJobWith throwingBody ''images''
       (resultsById [sampleVerdict ''job-1'' (JBool False)]) sampleImage []
       = (False,
          [] @ [LogSystemEvent
             \<lparr>l_action = ''error'',
              l_description =
                Some (''Unexpected error while processing job '' @ j_id sampleImage
                        @ '': '' @ message (Error ''defect'')),
              l_error_name = Some ''unexpected_job_processing_error'',
              l_target_id = Some (j_id sampleImage), l_metadata = []\<rparr>])"
    using a b c by blast
  from t have g: "processJobsWith throwingBody ''images''
       (resultsById [sampleVerdict ''job-1'' (JBool False)]) ([] @ sampleImage # [sampleVideo]) [] []
       = ([],
          [LogSystemEvent
             \<lparr>l_action = ''error'',
              l_description = Some ''Unexpected error while processing job job-1: defect'',
              l_error_name = Some ''unexpected_job_processing_error'',
              l_target_id = Some ''job-1'', l_metadata = []\<rparr>,
           LogSystemEvent
             \<lparr>l_action = ''error'',
              l_description = Some ''[Scanner] Invalid or missing result for media job-2'',
              l_error_name = Some ''scan_result_missing'',
              l_target_id = Some ''job-2'', l_metadata = []\<rparr>])"
    by (simp add: f e missingResult_explicit del: sample_ids) simp
  have hv: "resultsById [clearedVerdict] (j_id sampleVideo) = Some clearedVerdict"
    by (simp add: resultsById_def clearedVerdict_def sampleVerdict_def)
  have hn: "r_is_nsfw clearedVerdict = JBool False"
    by (simp add: clearedVerdict_def sampleVerdict_def)
  have hi: "resultsById [clearedVerdict] (j_id sampleImage) = None"
    by (simp add: resultsById_def clearedVerdict_def sampleVerdict_def)
  have pv: "processJob moveFailsWorld ''videos'' (resultsById [clearedVerdict]) sampleVideo []
      = (False,
         [MoveObjectWithinBuckets
             \<lparr>mv_fromKey = ''videos/jo/job-2.mp4'',
              mv_toBucket = BucketName ''talent-profiles-media'',
              mv_toKey = ''project/videos/jo/job-2.mp4''\<rparr>
             (Some (Error ''NoSuchKey'')),
           LogSystemEvent
             \<lparr>l_action = ''error'',
              l_description =
                Some ''Failed to move media item for job job-2 to talent-profiles-media: NoSuchKey'',
              l_error_name = Some ''media_move_failed'',
              l_target_id = Some ''job-2'', l_metadata = []\<rparr>])"
    unfolding processJob_safe [where rb = "resultsById [clearedVerdict]" and job = sampleVideo
        and result = clearedVerdict and w = moveFailsWorld and h = "[]" and type = "''videos''",
        OF hv hn]
    by (simp add: commit_def Let_def commitArgs_def getTargetBucket_def bucketMap_def
        bucketText_def toKey_def prefixTypes_def errorLog_def moveFailsWorld_def sampleVideo_def)
  have pi: "processJob moveFailsWorld ''videos'' (resultsById [clearedVerdict]) sampleImage h
      = (False,
         [LogSystemEvent
             \<lparr>l_action = ''error'',
              l_description = Some ''[Scanner] Invalid or missing result for media job-1'',
              l_error_name = Some ''scan_result_missing'',
              l_target_id = Some ''job-1'', l_metadata = []\<rparr>])" for h
    using hi by (simp add: processJob_missing missingResult_explicit)
  have k: "processJobs moveFailsWorld ''videos'' (resultsById [clearedVerdict])
       ([] @ sampleVideo # [sampleImage]) [] []
       = ([],
          [MoveObjectWithinBuckets
             \<lparr>mv_fromKey = ''videos/jo/job-2.mp4'',
              mv_toBucket = BucketName ''talent-profiles-media'',
              mv_toKey = ''project/videos/jo/job-2.mp4''\<rparr>
             (Some (Error ''NoSuchKey'')),
           LogSystemEvent
             \<lparr>l_action = ''error'',
              l_description =
                Some ''Failed to move media item for job job-2 to talent-profiles-media: NoSuchKey'',
              l_error_name = Some ''media_move_failed'',
              l_target_id = Some ''job-2'', l_metadata = []\<rparr>,
           LogSystemEvent
             \<lparr>l_action = ''error'',
              l_description = Some ''[Scanner] Invalid or missing result for media job-1'',
              l_error_name = Some ''scan_result_missing'',
              l_target_id = Some ''job-1'', l_metadata = []\<rparr>])"
    by (simp add: processJobs_def processJob_def [symmetric] pv pi)
  from a b c g k show ?thesis
    by (simp only:)
qed

text \<open>
  The move that opens the commit path: the file name as source key, the bucket looked
  up for the job's type, and the destination key.
\<close>

lemma commit_destination:
  "\<exists>out rest. snd (commit w h job r) =
     MoveObjectWithinBuckets
       \<lparr>mv_fromKey = j_file_name job,
        mv_toBucket =
          (case j_linked_to_type job of
             None \<Rightarrow> BucketName ''default-bucket''
           | Some t \<Rightarrow>
               (case map_of bucketMap t of
                  Some b \<Rightarrow> BucketName b
                | None \<Rightarrow> if t \<in> set objectPrototype then InheritedProperty t
                          else BucketName ''default-bucket'')),
        mv_toKey =
          (case j_linked_to_type job of
             None \<Rightarrow> j_file_name job
           | Some t \<Rightarrow>
               if t \<in> set [''post'', ''opportunity''] \<or> t = [] then j_file_name job
               else t @ ''/'' @ j_file_name job)\<rparr> out # rest"
  using commit_starts_with_move [of w h job r]
  unfolding commitArgs_def getTargetBucket_def toKey_def prefixTypes_def
  by assumption


lemma maybeFlushImages_cases:
  "maybeFlushImages s = s
   \<or> (\<not> imageScanning s \<and> imageQueue s \<noteq> []
      \<and> maybeFlushImages s =
          s\<lparr>imageQueue := drop IMAGE_BATCH_SIZE (imageQueue s), imageScanning := True,
            imageScans := imageScans s @ [take IMAGE_BATCH_SIZE (imageQueue s)]\<rparr>)"
  by (simp add: maybeFlushImages_def Let_def IMAGE_BATCH_SIZE_def)

lemma maybeFlushVideos_cases:
  "maybeFlushVideos s = s
   \<or> (\<not> videoScanning s \<and> videoQueue s \<noteq> []
      \<and> maybeFlushVideos s =
          s\<lparr>videoQueue := drop VIDEO_BATCH_SIZE (videoQueue s), videoScanning := True,
            videoScans := videoScans s @ [take VIDEO_BATCH_SIZE (videoQueue s)]\<rparr>)"
  by (simp add: maybeFlushVideos_def Let_def VIDEO_BATCH_SIZE_def)

lemma maybeFlushImages_flags: "flagsMatchScans s \<Longrightarrow> flagsMatchScans (maybeFlushImages s)"
  using maybeFlushImages_cases [of s] by (auto simp: flagsMatchScans_def)

lemma maybeFlushVideos_flags: "flagsMatchScans s \<Longrightarrow> flagsMatchScans (maybeFlushVideos s)"
  using maybeFlushVideos_cases [of s] by (auto simp: flagsMatchScans_def)

lemma flagsMatchScans_update [simp]:
  "flagsMatchScans (s\<lparr>imageQueue := q\<rparr>) = flagsMatchScans s"
  "flagsMatchScans (s\<lparr>videoQueue := q\<rparr>) = flagsMatchScans s"
  "flagsMatchScans (s\<lparr>imageTimer := t\<rparr>) = flagsMatchScans s"
  "flagsMatchScans (s\<lparr>videoTimer := t\<rparr>) = flagsMatchScans s"
  "flagsMatchScans (s\<lparr>firstImageTime := t\<rparr>) = flagsMatchScans s"
  "flagsMatchScans (s\<lparr>firstVideoTime := t\<rparr>) = flagsMatchScans s"
  by (simp_all add: flagsMatchScans_def)

lemma scheduleFlush_flags: "flagsMatchScans s \<Longrightarrow> flagsMatchScans (scheduleFlush isVideo now s)"
  by (simp add: scheduleFlush_def Let_def maybeFlushImages_flags maybeFlushVideos_flags)

lemma queueMediaJob_flags:
  "flagsMatchScans s \<Longrightarrow> queueMediaJob job now s = Inr s' \<Longrightarrow> flagsMatchScans s'"
  by (auto simp: queueMediaJob_def scheduleFlush_flags split: option.splits if_splits)

lemma timerFired_flags:
  "flagsMatchScans s \<Longrightarrow> flagsMatchScans (imageTimerFired s)"
  "flagsMatchScans s \<Longrightarrow> flagsMatchScans (videoTimerFired s)"
  by (simp_all add: imageTimerFired_def videoTimerFired_def maybeFlushImages_flags
      maybeFlushVideos_flags)

lemma remove1_single: "length xs \<le> 1 \<Longrightarrow> x \<in> set xs \<Longrightarrow> remove1 x xs = []"
  by (cases xs) auto

lemma imageSettled_clear:
  assumes "flagsMatchScans s" and "batch \<in> set (imageScans s)"
  shows "flagsMatchScans (s\<lparr>imageScans := remove1 batch (imageScans s), imageScanning := False\<rparr>)"
proof -
  have "length (imageScans s) \<le> 1"
    using assms(1) by (simp add: flagsMatchScans_def split: if_splits)
  then have "remove1 batch (imageScans s) = []"
    using assms(2) by (rule remove1_single)
  then show ?thesis
    using assms(1) by (simp add: flagsMatchScans_def)
qed

lemma videoSettled_clear:
  assumes "flagsMatchScans s" and "batch \<in> set (videoScans s)"
  shows "flagsMatchScans (s\<lparr>videoScans := remove1 batch (videoScans s), videoScanning := False\<rparr>)"
proof -
  have "length (videoScans s) \<le> 1"
    using assms(1) by (simp add: flagsMatchScans_def split: if_splits)
  then have "remove1 batch (videoScans s) = []"
    using assms(2) by (rule remove1_single)
  then show ?thesis
    using assms(1) by (simp add: flagsMatchScans_def)
qed

lemma imageScanSettled_flags:
  "flagsMatchScans s \<Longrightarrow> batch \<in> set (imageScans s) \<Longrightarrow>
   flagsMatchScans (imageScanSettled batch now s)"
  by (simp add: imageScanSettled_def Let_def scheduleFlush_flags imageSettled_clear)

lemma videoScanSettled_flags:
  "flagsMatchScans s \<Longrightarrow> batch \<in> set (videoScans s) \<Longrightarrow>
   flagsMatchScans (videoScanSettled batch now s)"
  by (simp add: videoScanSettled_def Let_def scheduleFlush_flags videoSettled_clear)

lemma reachable_flags: "s \<in> reachable \<Longrightarrow> flagsMatchScans s"
proof (induction rule: reachable.induct)
  case start
  then show ?case by (simp add: flagsMatchScans_def initial_def)
next
  case (enqueue s job now s')
  then show ?case by (simp add: queueMediaJob_flags)
next
  case (image_timer s)
  then show ?case by (simp add: timerFired_flags)
next
  case (video_timer s)
  then show ?case by (simp add: timerFired_flags)
next
  case (image_settled s batch now)
  then show ?case by (simp add: imageScanSettled_flags)
next
  case (video_settled s batch now)
  then show ?case by (simp add: videoScanSettled_flags)
next
  case (flush s isVideo now)
  then show ?case by (simp add: scheduleFlush_flags)
qed

lemma settled_images_state:
  assumes "flagsMatchScans s" and "batch \<in> set (imageScans s)"
  shows "imageScanSettled batch now s =
     (if imageQueue s = [] then s\<lparr>imageScanning := False, imageScans := []\<rparr>
      else if 10000 \<le> now - (case firstImageTime s of None \<Rightarrow> now
                                     | Some t \<Rightarrow> if t = 0 then now else t)
              \<or> 50 \<le> length (imageQueue s)
      then s\<lparr>imageQueue := drop 50 (imageQueue s), imageScanning := True,
             imageTimer := None, firstImageTime := None,
             imageScans := [take 50 (imageQueue s)]\<rparr>
      else s\<lparr>imageScanning := False,
             imageTimer :=
               Some (min (10000 - (now - (case firstImageTime s of None \<Rightarrow> now
                                              | Some t \<Rightarrow> if t = 0 then now else t)))
                         2000),
             firstImageTime :=
               Some (case firstImageTime s of None \<Rightarrow> now
                     | Some t \<Rightarrow> if t = 0 then now else t),
             imageScans := []\<rparr>)"
proof -
  have "length (imageScans s) \<le> 1"
    using assms(1) by (simp add: flagsMatchScans_def split: if_splits)
  then have r: "remove1 batch (imageScans s) = []"
    using assms(2) by (rule remove1_single)
  show ?thesis
    by (simp add: imageScanSettled_def Let_def r scheduleFlush_def maybeFlushImages_def
        firstTime_def IMAGE_MAX_WAIT_def IMAGE_INTERVAL_def
        IMAGE_BATCH_SIZE_def)
qed

lemma in_flight_images_kept:
  assumes "flagsMatchScans s" and "imageScans s \<noteq> []"
  shows "maybeFlushImages s = s"
    and "imageScans (scheduleFlush isVideo now s) = imageScans s"
    and "imageScans (imageTimerFired s) = imageScans s"
    and "queueMediaJob job now s = Inr s' \<Longrightarrow> imageScans s' = imageScans s"
proof -
  have f: "imageScanning s"
    using assms by (auto simp: flagsMatchScans_def split: if_splits)
  show "maybeFlushImages s = s"
    using f by (simp add: maybeFlushImages_def)
  have m: "maybeFlushImages t = t" if "imageScanning t" for t
    using that by (simp add: maybeFlushImages_def)
  have o: "imageScans (maybeFlushVideos t) = imageScans t" for t
    using maybeFlushVideos_cases [of t] by auto
  have g: "imageScans (scheduleFlush v n t) = imageScans t" if "imageScanning t" for t v n
    using that by (simp add: scheduleFlush_def Let_def m o)
  show "imageScans (scheduleFlush isVideo now s) = imageScans s"
    using f by (rule g)
  show "imageScans (imageTimerFired s) = imageScans s"
    using f by (simp add: imageTimerFired_def m)
  show "imageScans s' = imageScans s" if "queueMediaJob job now s = Inr s'"
    using that f by (auto simp: queueMediaJob_def g split: option.splits if_splits)
qed

lemma settled_videos_state:
  assumes "flagsMatchScans s" and "batch \<in> set (videoScans s)"
  shows "videoScanSettled batch now s =
     (if videoQueue s = [] then s\<lparr>videoScanning := False, videoScans := []\<rparr>
      else if 10000 \<le> now - (case firstVideoTime s of None \<Rightarrow> now
                                     | Some t \<Rightarrow> if t = 0 then now else t)
              \<or> 10 \<le> length (videoQueue s)
      then s\<lparr>videoQueue := drop 10 (videoQueue s), videoScanning := True,
             videoTimer := None, firstVideoTime := None,
             videoScans := [take 10 (videoQueue s)]\<rparr>
      else s\<lparr>videoScanning := False,
             videoTimer :=
               Some (min (10000 - (now - (case firstVideoTime s of None \<Rightarrow> now
                                              | Some t \<Rightarrow> if t = 0 then now else t)))
                         3000),
             firstVideoTime :=
               Some (case firstVideoTime s of None \<Rightarrow> now
                     | Some t \<Rightarrow> if t = 0 then now else t),
             videoScans := []\<rparr>)"
proof -
  have "length (videoScans s) \<le> 1"
    using assms(1) by (simp add: flagsMatchScans_def split: if_splits)
  then have r: "remove1 batch (videoScans s) = []"
    using assms(2) by (rule remove1_single)
  show ?thesis
    by (simp add: videoScanSettled_def Let_def r scheduleFlush_def maybeFlushVideos_def
        firstTime_def VIDEO_MAX_WAIT_def VIDEO_INTERVAL_def
        VIDEO_BATCH_SIZE_def)
qed

lemma in_flight_videos_kept:
  assumes "flagsMatchScans s" and "videoScans s \<noteq> []"
  shows "maybeFlushVideos s = s"
    and "videoScans (scheduleFlush isVideo now s) = videoScans s"
    and "videoScans (videoTimerFired s) = videoScans s"
    and "queueMediaJob job now s = Inr s' \<Longrightarrow> videoScans s' = videoScans s"
proof -
  have f: "videoScanning s"
    using assms by (auto simp: flagsMatchScans_def split: if_splits)
  show "maybeFlushVideos s = s"
    using f by (simp add: maybeFlushVideos_def)
  have m: "maybeFlushVideos t = t" if "videoScanning t" for t
    using that by (simp add: maybeFlushVideos_def)
  have o: "videoScans (maybeFlushImages t) = videoScans t" for t
    using maybeFlushImages_cases [of t] by auto
  have g: "videoScans (scheduleFlush v n t) = videoScans t" if "videoScanning t" for t v n
    using that by (simp add: scheduleFlush_def Let_def m o)
  show "videoScans (scheduleFlush isVideo now s) = videoScans s"
    using f by (rule g)
  show "videoScans (videoTimerFired s) = videoScans s"
    using f by (simp add: videoTimerFired_def m)
  show "videoScans s' = videoScans s" if "queueMediaJob job now s = Inr s'"
    using that f by (auto simp: queueMediaJob_def g split: option.splits if_splits)
qed

text \<open>
  Claim C5. In every state the module can reach, each class has at most one scan in
  flight. While a scan of a class is in flight, a flush of that class changes nothing,
  and no request to schedule a flush, no timer callback and no enqueued job changes
  the scans in flight of that class, so no second scan is started. When the scan in
  flight settles, the class has no scan in flight and, if jobs wait in its queue, a new
  flush cycle starts from the time the first of them has waited: when 10000 ms have
  passed or the queue has reached the batch size (50 images, 10 videos), the first
  batch is taken off the queue and handed to the scanner at once; otherwise a timer is
  set for the rest of the 10000 ms, at most the class's interval (2000 ms for images,
  3000 ms for videos). With an empty queue nothing is scheduled.
\<close>

theorem single_flight_per_class:
  assumes "s \<in> reachable"
  shows "length (imageScans s) \<le> 1 \<and> length (videoScans s) \<le> 1
     \<and> (imageScans s \<noteq> [] \<longrightarrow>
         maybeFlushImages s = s
         \<and> (\<forall>isVideo now. imageScans (scheduleFlush isVideo now s) = imageScans s)
         \<and> imageScans (imageTimerFired s) = imageScans s
         \<and> (\<forall>job now s'. queueMediaJob job now s = Inr s' \<longrightarrow> imageScans s' = imageScans s))
     \<and> (videoScans s \<noteq> [] \<longrightarrow>
         maybeFlushVideos s = s
         \<and> (\<forall>isVideo now. videoScans (scheduleFlush isVideo now s) = videoScans s)
         \<and> videoScans (videoTimerFired s) = videoScans s
         \<and> (\<forall>job now s'. queueMediaJob job now s = Inr s' \<longrightarrow> videoScans s' = videoScans s))
     \<and> (\<forall>batch now. batch \<in> set (imageScans s) \<longrightarrow>
           imageScanSettled batch now s =
             (if imageQueue s = [] then s\<lparr>imageScanning := False, imageScans := []\<rparr>
              else if 10000 \<le> now - (case firstImageTime s of None \<Rightarrow> now
                                             | Some t \<Rightarrow> if t = 0 then now else t)
                      \<or> 50 \<le> length (imageQueue s)
              then s\<lparr>imageQueue := drop 50 (imageQueue s), imageScanning := True,
                     imageTimer := None, firstImageTime := None,
                     imageScans := [take 50 (imageQueue s)]\<rparr>
              else s\<lparr>imageScanning := False,
                     imageTimer :=
                       Some (min (10000 - (now - (case firstImageTime s of None \<Rightarrow> now
                                                      | Some t \<Rightarrow> if t = 0 then now else t)))
                                 2000),
                     firstImageTime :=
                       Some (case firstImageTime s of None \<Rightarrow> now
                             | Some t \<Rightarrow> if t = 0 then now else t),
                     imageScans := []\<rparr>))
     \<and> (\<forall>batch now. batch \<in> set (videoScans s) \<longrightarrow>
           videoScanSettled batch now s =
             (if videoQueue s = [] then s\<lparr>videoScanning := False, videoScans := []\<rparr>
              else if 10000 \<le> now - (case firstVideoTime s of None \<Rightarrow> now
                                             | Some t \<Rightarrow> if t = 0 then now else t)
                      \<or> 10 \<le> length (videoQueue s)
              then s\<lparr>videoQueue := drop 10 (videoQueue s), videoScanning := True,
                     videoTimer := None, firstVideoTime := None,
                     videoScans := [take 10 (videoQueue s)]\<rparr>
              else s\<lparr>videoScanning := False,
                     videoTimer :=
                       Some (min (10000 - (now - (case firstVideoTime s of None \<Rightarrow> now
                                                      | Some t \<Rightarrow> if t = 0 then now else t)))
                                 3000),
                     firstVideoTime :=
                       Some (case firstVideoTime s of None \<Rightarrow> now
                             | Some t \<Rightarrow> if t = 0 then now else t),
                     videoScans := []\<rparr>))"
proof -
  have inv: "flagsMatchScans s"
    using assms by (rule reachable_flags)
  have a: "length (imageScans s) \<le> 1" and b: "length (videoScans s) \<le> 1"
    using inv by (simp_all add: flagsMatchScans_def split: if_splits)
  have c: "(imageScans s \<noteq> [] \<longrightarrow>
         maybeFlushImages s = s
         \<and> (\<forall>isVideo now. imageScans (scheduleFlush isVideo now s) = imageScans s)
         \<and> imageScans (imageTimerFired s) = imageScans s
         \<and> (\<forall>job now s'. queueMediaJob job now s = Inr s' \<longrightarrow> imageScans s' = imageScans s))"
    using in_flight_images_kept [OF inv] by blast
  have d: "(videoScans s \<noteq> [] \<longrightarrow>
         maybeFlushVideos s = s
         \<and> (\<forall>isVideo now. videoScans (scheduleFlush isVideo now s) = videoScans s)
         \<and> videoScans (videoTimerFired s) = videoScans s
         \<and> (\<forall>job now s'. queueMediaJob job now s = Inr s' \<longrightarrow> videoScans s' = videoScans s))"
    using in_flight_videos_kept [OF inv] by blast
  have e: "(\<forall>batch now. batch \<in> set (imageScans s) \<longrightarrow>
           imageScanSettled batch now s =
             (if imageQueue s = [] then s\<lparr>imageScanning := False, imageScans := []\<rparr>
              else if 10000 \<le> now - (case firstImageTime s of None \<Rightarrow> now
                                             | Some t \<Rightarrow> if t = 0 then now else t)
                      \<or> 50 \<le> length (imageQueue s)
              then s\<lparr>imageQueue := drop 50 (imageQueue s), imageScanning := True,
                     imageTimer := None, firstImageTime := None,
                     imageScans := [take 50 (imageQueue s)]\<rparr>
              else s\<lparr>imageScanning := False,
                     imageTimer :=
                       Some (min (10000 - (now - (case firstImageTime s of None \<Rightarrow> now
                                                      | Some t \<Rightarrow> if t = 0 then now else t)))
                                 2000),
                     firstImageTime :=
                       Some (case firstImageTime s of None \<Rightarrow> now
                             | Some t \<Rightarrow> if t = 0 then now else t),
                     imageScans := []\<rparr>))"
    using settled_images_state [OF inv] by blast
  have f: "(\<forall>batch now. batch \<in> set (videoScans s) \<longrightarrow>
           videoScanSettled batch now s =
             (if videoQueue s = [] then s\<lparr>videoScanning := False, videoScans := []\<rparr>
              else if 10000 \<le> now - (case firstVideoTime s of None \<Rightarrow> now
                                             | Some t \<Rightarrow> if t = 0 then now else t)
                      \<or> 10 \<le> length (videoQueue s)
              then s\<lparr>videoQueue := drop 10 (videoQueue s), videoScanning := True,
                     videoTimer := None, firstVideoTime := None,
                     videoScans := [take 10 (videoQueue s)]\<rparr>
              else s\<lparr>videoScanning := False,
                     videoTimer :=
                       Some (min (10000 - (now - (case firstVideoTime s of None \<Rightarrow> now
                                                      | Some t \<Rightarrow> if t = 0 then now else t)))
                                 3000),
                     firstVideoTime :=
                       Some (case firstVideoTime s of None \<Rightarrow> now
                             | Some t \<Rightarrow> if t = 0 then now else t),
                     videoScans := []\<rparr>))"
    using settled_videos_state [OF inv] by blast
  from a b c d e f show ?thesis
    by (intro conjI)
qed

lemma scheduleFlush_video_cases:
  "scheduleFlush True now s =
     s\<lparr>firstVideoTime := Some (firstTime (firstVideoTime s) now),
       videoTimer := Some (min (VIDEO_MAX_WAIT - (now - firstTime (firstVideoTime s) now))
                             VIDEO_INTERVAL)\<rparr>
   \<or> scheduleFlush True now s =
       maybeFlushVideos (s\<lparr>videoTimer := None, firstVideoTime := None\<rparr>)"
  by (simp add: scheduleFlush_def Let_def)

lemma scheduleFlush_image_cases:
  "scheduleFlush False now s =
     s\<lparr>firstImageTime := Some (firstTime (firstImageTime s) now),
       imageTimer := Some (min (IMAGE_MAX_WAIT - (now - firstTime (firstImageTime s) now))
                             IMAGE_INTERVAL)\<rparr>
   \<or> scheduleFlush False now s =
       maybeFlushImages (s\<lparr>imageTimer := None, firstImageTime := None\<rparr>)"
  by (simp add: scheduleFlush_def Let_def)

lemma scheduleFlush_video_queue:
  "(videoQueue (scheduleFlush True now s) = videoQueue s
      \<and> videoScans (scheduleFlush True now s) = videoScans s
    \<or> videoQueue (scheduleFlush True now s) = drop VIDEO_BATCH_SIZE (videoQueue s)
      \<and> videoScans (scheduleFlush True now s)
          = videoScans s @ [take VIDEO_BATCH_SIZE (videoQueue s)])
   \<and> imageQueue (scheduleFlush True now s) = imageQueue s
   \<and> imageScans (scheduleFlush True now s) = imageScans s"
  using scheduleFlush_video_cases [of now s]
    maybeFlushVideos_cases [of "s\<lparr>videoTimer := None, firstVideoTime := None\<rparr>"]
  by auto

lemma scheduleFlush_image_queue:
  "(imageQueue (scheduleFlush False now s) = imageQueue s
      \<and> imageScans (scheduleFlush False now s) = imageScans s
    \<or> imageQueue (scheduleFlush False now s) = drop IMAGE_BATCH_SIZE (imageQueue s)
      \<and> imageScans (scheduleFlush False now s)
          = imageScans s @ [take IMAGE_BATCH_SIZE (imageQueue s)])
   \<and> videoQueue (scheduleFlush False now s) = videoQueue s
   \<and> videoScans (scheduleFlush False now s) = videoScans s"
  using scheduleFlush_image_cases [of now s]
    maybeFlushImages_cases [of "s\<lparr>imageTimer := None, firstImageTime := None\<rparr>"]
  by auto

text \<open>
  Claim C10, as amended. For a job with a string mime type \<^verbatim>\<open>queueMediaJob\<close> returns
  normally; the job goes to the video queue exactly when the mime type starts with
  \<open>video\<close> and to the image queue otherwise; the other class is untouched; and the
  chosen queue either is the old queue with the job appended, or a flush was
  triggered and the first \<open>BATCH_SIZE\<close> elements of the old queue with the job
  appended were handed to the scanner as a new batch, the rest staying queued.
\<close>

theorem enqueue_appends_one_job:
  assumes "j_mime_type job = Some mime"
  shows "\<exists>s'. queueMediaJob job now s = Inr s'
     \<and> (if startsWith mime ''video''
        then (videoQueue s' = videoQueue s @ [job] \<and> videoScans s' = videoScans s
              \<or> videoQueue s' = drop VIDEO_BATCH_SIZE (videoQueue s @ [job])
                \<and> videoScans s' = videoScans s @ [take VIDEO_BATCH_SIZE (videoQueue s @ [job])])
             \<and> imageQueue s' = imageQueue s \<and> imageScans s' = imageScans s
        else (imageQueue s' = imageQueue s @ [job] \<and> imageScans s' = imageScans s
              \<or> imageQueue s' = drop IMAGE_BATCH_SIZE (imageQueue s @ [job])
                \<and> imageScans s' = imageScans s @ [take IMAGE_BATCH_SIZE (imageQueue s @ [job])])
             \<and> videoQueue s' = videoQueue s \<and> videoScans s' = videoScans s)"
proof (cases "startsWith mime ''video''")
  case True
  have "queueMediaJob job now s = Inr (scheduleFlush True now (s\<lparr>videoQueue := videoQueue s @ [job]\<rparr>))"
    using assms True by (simp add: queueMediaJob_def)
  then show ?thesis
    using True scheduleFlush_video_queue [of now "s\<lparr>videoQueue := videoQueue s @ [job]\<rparr>"]
    by simp
next
  case False
  have "queueMediaJob job now s = Inr (scheduleFlush False now (s\<lparr>imageQueue := imageQueue s @ [job]\<rparr>))"
    using assms False by (simp add: queueMediaJob_def)
  then show ?thesis
    using False scheduleFlush_image_queue [of now "s\<lparr>imageQueue := imageQueue s @ [job]\<rparr>"]
    by simp
qed

lemma concat_take_drop: "concat (xss @ [take n q]) @ drop n q = concat xss @ q"
  by simp

lemma scheduleFlush_held: "heldJobs (scheduleFlush isVideo now s) = heldJobs s"
proof (cases isVideo)
  case True
  show ?thesis
    using scheduleFlush_video_queue [of now s] True
    by (auto simp: heldJobs_def)
next
  case False
  show ?thesis
    using scheduleFlush_image_queue [of now s] False
    by (auto simp: heldJobs_def)
qed

lemma queueMediaJob_held:
  assumes "j_mime_type job = Some mime"
  shows "count_list (heldJobs (projr (queueMediaJob job now s))) x =
           count_list (heldJobs s) x + (if x = job then 1 else 0)"
proof (cases "startsWith mime ''video''")
  case True
  have "projr (queueMediaJob job now s) = scheduleFlush True now (s\<lparr>videoQueue := videoQueue s @ [job]\<rparr>)"
    using assms True by (simp add: queueMediaJob_def)
  then have "heldJobs (projr (queueMediaJob job now s)) = heldJobs (s\<lparr>videoQueue := videoQueue s @ [job]\<rparr>)"
    by (simp only: scheduleFlush_held)
  then show ?thesis
    by (simp add: heldJobs_def)
next
  case False
  have "projr (queueMediaJob job now s) = scheduleFlush False now (s\<lparr>imageQueue := imageQueue s @ [job]\<rparr>)"
    using assms False by (simp add: queueMediaJob_def)
  then have "heldJobs (projr (queueMediaJob job now s)) = heldJobs (s\<lparr>imageQueue := imageQueue s @ [job]\<rparr>)"
    by (simp only: scheduleFlush_held)
  then show ?thesis
    by (simp add: heldJobs_def)
qed

lemma recoverJobs_append:
  "recoverJobs w (xs @ ys) s h =
     (case recoverJobs w xs s h of
        (s1, e1) \<Rightarrow>
          (case recoverJobs w ys s1 (h @ e1) of
             (s2, e2) \<Rightarrow> (s2, e1 @ e2)))"
  by (induction xs arbitrary: s h) (simp_all split: prod.split)

lemma recoverJob_success:
  assumes "j_file_name job \<noteq> []"
    and "sign_url w h (j_file_name job) = SignResolves (Some u)" and "u \<noteq> []"
    and "j_mime_type job = Some mime"
  shows "recoverJob w job s h =
           (projr (queueMediaJob (job\<lparr>j_url := Some u\<rparr>)
                     (date_now w (h @ [GenerateSignedGetUrl (j_file_name job) (SignResolves (Some u))]))
                     s),
            [GenerateSignedGetUrl (j_file_name job) (SignResolves (Some u))])"
proof -
  obtain s' where q: "queueMediaJob (job\<lparr>j_url := Some u\<rparr>)
      (date_now w (h @ [GenerateSignedGetUrl (j_file_name job) (SignResolves (Some u))])) s = Inr s'"
    using assms(4) by (cases "startsWith mime ''video''") (simp_all add: queueMediaJob_def)
  show ?thesis
    using assms(1,2,3) by (simp add: recoverJob_def Let_def falsy_str_def q)
qed

lemma recovery_held:
  "heldJobs (fst (recovery w jobs s h)) = heldJobs (fst (recoverJobs w jobs s h))
   \<and> snd (recovery w jobs s h) = snd (recoverJobs w jobs s h)"
proof (cases jobs)
  case Nil
  then show ?thesis by (simp add: recovery_def)
next
  case (Cons j js)
  then show ?thesis
    by (simp add: recovery_def Let_def scheduleFlush_held split: prod.split)
qed

lemma recoverJob_outcomes:
  assumes "j_mime_type job \<noteq> None"
  shows "(j_file_name job = [] \<longrightarrow> recoverJob w job s' h' = (s', []))
         \<and> (\<forall>err. j_file_name job \<noteq> [] \<and> sign_url w h' (j_file_name job) = SignRejects err
              \<longrightarrow> recoverJob w job s' h' =
                    (s', [GenerateSignedGetUrl (j_file_name job) (SignRejects err),
                          LogSystemEvent
                   \<lparr>l_action = ''error'', l_description = None,
                    l_error_name = Some ''signed_url_generation_failed'',
                    l_target_id = None, l_metadata = []\<rparr>]))
         \<and> (\<forall>u. j_file_name job \<noteq> [] \<and> sign_url w h' (j_file_name job) = SignResolves u
                  \<and> (u = None \<or> u = Some [])
              \<longrightarrow> recoverJob w job s' h' =
                    (s', [GenerateSignedGetUrl (j_file_name job) (SignResolves u)]))
         \<and> (\<forall>u. j_file_name job \<noteq> [] \<and> sign_url w h' (j_file_name job) = SignResolves (Some u)
                  \<and> u \<noteq> []
              \<longrightarrow> recoverJob w job s' h' =
                    (projr (queueMediaJob (job\<lparr>j_url := Some u\<rparr>)
                              (date_now w (h' @ [GenerateSignedGetUrl (j_file_name job)
                                                    (SignResolves (Some u))])) s'),
                     [GenerateSignedGetUrl (j_file_name job) (SignResolves (Some u))])
                  \<and> (\<forall>x. count_list (heldJobs (fst (recoverJob w job s' h'))) x =
                           count_list (heldJobs s') x
                           + (if x = job\<lparr>j_url := Some u\<rparr> then 1 else 0)))"
proof (intro conjI allI impI)
  assume "j_file_name job = []"
  then show "recoverJob w job s' h' = (s', [])"
    by (simp add: recoverJob_def)
next
  fix err
  assume "j_file_name job \<noteq> [] \<and> sign_url w h' (j_file_name job) = SignRejects err"
  then show "recoverJob w job s' h' =
                    (s', [GenerateSignedGetUrl (j_file_name job) (SignRejects err),
                          LogSystemEvent
                   \<lparr>l_action = ''error'', l_description = None,
                    l_error_name = Some ''signed_url_generation_failed'',
                    l_target_id = None, l_metadata = []\<rparr>])"
    by (simp add: recoverJob_def Let_def signFailed_def)
next
  fix u
  assume "j_file_name job \<noteq> [] \<and> sign_url w h' (j_file_name job) = SignResolves u
                  \<and> (u = None \<or> u = Some [])"
  then show "recoverJob w job s' h' =
                    (s', [GenerateSignedGetUrl (j_file_name job) (SignResolves u)])"
    by (auto simp: recoverJob_def Let_def falsy_str_def)
next
  fix u
  assume a: "j_file_name job \<noteq> [] \<and> sign_url w h' (j_file_name job) = SignResolves (Some u)
                  \<and> u \<noteq> []"
  obtain mime where m: "j_mime_type job = Some mime"
    using assms by auto
  from a m show r: "recoverJob w job s' h' =
                    (projr (queueMediaJob (job\<lparr>j_url := Some u\<rparr>)
                              (date_now w (h' @ [GenerateSignedGetUrl (j_file_name job)
                                                    (SignResolves (Some u))])) s'),
                     [GenerateSignedGetUrl (j_file_name job) (SignResolves (Some u))])"
    by (simp add: recoverJob_success)
  fix x
  have "j_mime_type (job\<lparr>j_url := Some u\<rparr>) = Some mime"
    using m by simp
  from queueMediaJob_held [OF this]
  show "count_list (heldJobs (fst (recoverJob w job s' h'))) x =
          count_list (heldJobs s') x + (if x = job\<lparr>j_url := Some u\<rparr> then 1 else 0)"
    by (simp add: r)
qed

lemma recoverJob_shape:
  assumes "j_mime_type job \<noteq> None"
  shows "(j_file_name job = [] \<and> recoverJob w job s h = (s, []))
       \<or> (j_file_name job \<noteq> []
          \<and> (\<exists>err. recoverJob w job s h =
                 (s, [GenerateSignedGetUrl (j_file_name job) (SignRejects err),
                      LogSystemEvent
                   \<lparr>l_action = ''error'', l_description = None,
                    l_error_name = Some ''signed_url_generation_failed'',
                    l_target_id = None, l_metadata = []\<rparr>])))
       \<or> (j_file_name job \<noteq> []
          \<and> (\<exists>u. falsy_str u
                 \<and> recoverJob w job s h =
                     (s, [GenerateSignedGetUrl (j_file_name job) (SignResolves u)])))
       \<or> (j_file_name job \<noteq> []
          \<and> (\<exists>u. u \<noteq> []
                 \<and> snd (recoverJob w job s h) =
                     [GenerateSignedGetUrl (j_file_name job) (SignResolves (Some u))]
                 \<and> (\<forall>x. count_list (heldJobs (fst (recoverJob w job s h))) x =
                          count_list (heldJobs s) x
                          + (if x = job\<lparr>j_url := Some u\<rparr> then 1 else 0))))"
proof (cases "j_file_name job = []")
  case True
  then show ?thesis
    using recoverJob_outcomes [OF assms, of w s h] by simp
next
  case False
  show ?thesis
  proof (cases "sign_url w h (j_file_name job)")
    case (SignRejects err)
    with False show ?thesis
      using recoverJob_outcomes [OF assms, of w s h] by simp
  next
    case (SignResolves u)
    show ?thesis
    proof (cases "u = None \<or> u = Some []")
      case True
      with False SignResolves show ?thesis
        using recoverJob_outcomes [OF assms, of w s h] by (auto simp: falsy_str_def)
    next
      case no: False
      then obtain v where v: "u = Some v" "v \<noteq> []"
        by (cases u) auto
      with False SignResolves show ?thesis
        using recoverJob_outcomes [OF assms, of w s h] by auto
    qed
  qed
qed

lemma recoverJobs_loop:
  assumes "\<forall>j \<in> set jobs. j_mime_type j \<noteq> None"
  shows "concat (map (\<lambda>e. case e of GenerateSignedGetUrl k out \<Rightarrow> [k] | _ \<Rightarrow> []) (snd (recoverJobs w jobs s h)))
       = filter (\<lambda>k. k \<noteq> []) (map j_file_name jobs)
   \<and> (\<forall>e \<in> set (snd (recoverJobs w jobs s h)).
         (\<exists>k out. e = GenerateSignedGetUrl k out)
         \<or> e = LogSystemEvent
                   \<lparr>l_action = ''error'', l_description = None,
                    l_error_name = Some ''signed_url_generation_failed'',
                    l_target_id = None, l_metadata = []\<rparr>)
   \<and> length (filter (\<lambda>e. case e of LogSystemEvent l \<Rightarrow> True | _ \<Rightarrow> False) (snd (recoverJobs w jobs s h)))
       = length (filter (\<lambda>e. case e of GenerateSignedGetUrl k (SignRejects err) \<Rightarrow> True | _ \<Rightarrow> False) (snd (recoverJobs w jobs s h)))
   \<and> (\<forall>x. count_list (heldJobs (fst (recoverJobs w jobs s h))) x =
          count_list (heldJobs s) x
          + count_list
              (concat (map (\<lambda>(j, e). case e of
                      GenerateSignedGetUrl k (SignResolves (Some u)) \<Rightarrow>
                        if u = [] then [] else [j\<lparr>j_url := Some u\<rparr>]
                    | _ \<Rightarrow> [])
                 (zip (filter (\<lambda>j. j_file_name j \<noteq> []) jobs)
                      (filter (\<lambda>e. case e of GenerateSignedGetUrl k out \<Rightarrow> True | _ \<Rightarrow> False) (snd (recoverJobs w jobs s h)))))) x)"
  using assms
proof (induction jobs arbitrary: s h)
  case Nil
  show ?case
    by simp
next
  case (Cons job rest)
  obtain s1 e1 where j: "recoverJob w job s h = (s1, e1)"
    by (cases "recoverJob w job s h")
  obtain s2 e2 where r: "recoverJobs w rest s1 (h @ e1) = (s2, e2)"
    by (cases "recoverJobs w rest s1 (h @ e1)")
  have all: "recoverJobs w (job # rest) s h = (s2, e1 @ e2)"
    by (simp add: j r)
  have m: "j_mime_type job \<noteq> None" and ms: "\<forall>j \<in> set rest. j_mime_type j \<noteq> None"
    using Cons.prems by simp_all
  note ih = Cons.IH [OF ms, of s1 "h @ e1", unfolded r fst_conv snd_conv]
  from recoverJob_shape [OF m, of w s h, unfolded j fst_conv snd_conv]
  show ?case
    unfolding all fst_conv snd_conv
  proof (elim disjE conjE exE)
    assume "j_file_name job = []" and "(s1, e1) = (s, [])"
    then show "concat (map (\<lambda>e. case e of GenerateSignedGetUrl k out \<Rightarrow> [k] | _ \<Rightarrow> []) (e1 @ e2))
       = filter (\<lambda>k. k \<noteq> []) (map j_file_name (job # rest))
   \<and> (\<forall>e \<in> set (e1 @ e2).
         (\<exists>k out. e = GenerateSignedGetUrl k out)
         \<or> e = LogSystemEvent
                   \<lparr>l_action = ''error'', l_description = None,
                    l_error_name = Some ''signed_url_generation_failed'',
                    l_target_id = None, l_metadata = []\<rparr>)
   \<and> length (filter (\<lambda>e. case e of LogSystemEvent l \<Rightarrow> True | _ \<Rightarrow> False) (e1 @ e2))
       = length (filter (\<lambda>e. case e of GenerateSignedGetUrl k (SignRejects err) \<Rightarrow> True | _ \<Rightarrow> False) (e1 @ e2))
   \<and> (\<forall>x. count_list (heldJobs (s2)) x =
          count_list (heldJobs s) x
          + count_list
              (concat (map (\<lambda>(j, e). case e of
                      GenerateSignedGetUrl k (SignResolves (Some u)) \<Rightarrow>
                        if u = [] then [] else [j\<lparr>j_url := Some u\<rparr>]
                    | _ \<Rightarrow> [])
                 (zip (filter (\<lambda>j. j_file_name j \<noteq> []) (job # rest))
                      (filter (\<lambda>e. case e of GenerateSignedGetUrl k out \<Rightarrow> True | _ \<Rightarrow> False) (e1 @ e2))))) x)"
      using ih by simp
  next
    fix err
    assume "j_file_name job \<noteq> []"
      and "(s1, e1) = (s, [GenerateSignedGetUrl (j_file_name job) (SignRejects err),
                      LogSystemEvent
                   \<lparr>l_action = ''error'', l_description = None,
                    l_error_name = Some ''signed_url_generation_failed'',
                    l_target_id = None, l_metadata = []\<rparr>])"
    then show "concat (map (\<lambda>e. case e of GenerateSignedGetUrl k out \<Rightarrow> [k] | _ \<Rightarrow> []) (e1 @ e2))
       = filter (\<lambda>k. k \<noteq> []) (map j_file_name (job # rest))
   \<and> (\<forall>e \<in> set (e1 @ e2).
         (\<exists>k out. e = GenerateSignedGetUrl k out)
         \<or> e = LogSystemEvent
                   \<lparr>l_action = ''error'', l_description = None,
                    l_error_name = Some ''signed_url_generation_failed'',
                    l_target_id = None, l_metadata = []\<rparr>)
   \<and> length (filter (\<lambda>e. case e of LogSystemEvent l \<Rightarrow> True | _ \<Rightarrow> False) (e1 @ e2))
       = length (filter (\<lambda>e. case e of GenerateSignedGetUrl k (SignRejects err) \<Rightarrow> True | _ \<Rightarrow> False) (e1 @ e2))
   \<and> (\<forall>x. count_list (heldJobs (s2)) x =
          count_list (heldJobs s) x
          + count_list
              (concat (map (\<lambda>(j, e). case e of
                      GenerateSignedGetUrl k (SignResolves (Some u)) \<Rightarrow>
                        if u = [] then [] else [j\<lparr>j_url := Some u\<rparr>]
                    | _ \<Rightarrow> [])
                 (zip (filter (\<lambda>j. j_file_name j \<noteq> []) (job # rest))
                      (filter (\<lambda>e. case e of GenerateSignedGetUrl k out \<Rightarrow> True | _ \<Rightarrow> False) (e1 @ e2))))) x)"
      using ih by simp
  next
    fix u :: "string option"
    assume "j_file_name job \<noteq> []" and "falsy_str u"
      and "(s1, e1) = (s, [GenerateSignedGetUrl (j_file_name job) (SignResolves u)])"
    then show "concat (map (\<lambda>e. case e of GenerateSignedGetUrl k out \<Rightarrow> [k] | _ \<Rightarrow> []) (e1 @ e2))
       = filter (\<lambda>k. k \<noteq> []) (map j_file_name (job # rest))
   \<and> (\<forall>e \<in> set (e1 @ e2).
         (\<exists>k out. e = GenerateSignedGetUrl k out)
         \<or> e = LogSystemEvent
                   \<lparr>l_action = ''error'', l_description = None,
                    l_error_name = Some ''signed_url_generation_failed'',
                    l_target_id = None, l_metadata = []\<rparr>)
   \<and> length (filter (\<lambda>e. case e of LogSystemEvent l \<Rightarrow> True | _ \<Rightarrow> False) (e1 @ e2))
       = length (filter (\<lambda>e. case e of GenerateSignedGetUrl k (SignRejects err) \<Rightarrow> True | _ \<Rightarrow> False) (e1 @ e2))
   \<and> (\<forall>x. count_list (heldJobs (s2)) x =
          count_list (heldJobs s) x
          + count_list
              (concat (map (\<lambda>(j, e). case e of
                      GenerateSignedGetUrl k (SignResolves (Some u)) \<Rightarrow>
                        if u = [] then [] else [j\<lparr>j_url := Some u\<rparr>]
                    | _ \<Rightarrow> [])
                 (zip (filter (\<lambda>j. j_file_name j \<noteq> []) (job # rest))
                      (filter (\<lambda>e. case e of GenerateSignedGetUrl k out \<Rightarrow> True | _ \<Rightarrow> False) (e1 @ e2))))) x)"
      using ih by (auto simp: falsy_str_def)
  next
    fix u :: string
    assume "j_file_name job \<noteq> []" and "u \<noteq> []"
      and "e1 = [GenerateSignedGetUrl (j_file_name job) (SignResolves (Some u))]"
      and "\<forall>x. count_list (heldJobs s1) x =
              count_list (heldJobs s) x + (if x = job\<lparr>j_url := Some u\<rparr> then 1 else 0)"
    then show "concat (map (\<lambda>e. case e of GenerateSignedGetUrl k out \<Rightarrow> [k] | _ \<Rightarrow> []) (e1 @ e2))
       = filter (\<lambda>k. k \<noteq> []) (map j_file_name (job # rest))
   \<and> (\<forall>e \<in> set (e1 @ e2).
         (\<exists>k out. e = GenerateSignedGetUrl k out)
         \<or> e = LogSystemEvent
                   \<lparr>l_action = ''error'', l_description = None,
                    l_error_name = Some ''signed_url_generation_failed'',
                    l_target_id = None, l_metadata = []\<rparr>)
   \<and> length (filter (\<lambda>e. case e of LogSystemEvent l \<Rightarrow> True | _ \<Rightarrow> False) (e1 @ e2))
       = length (filter (\<lambda>e. case e of GenerateSignedGetUrl k (SignRejects err) \<Rightarrow> True | _ \<Rightarrow> False) (e1 @ e2))
   \<and> (\<forall>x. count_list (heldJobs (s2)) x =
          count_list (heldJobs s) x
          + count_list
              (concat (map (\<lambda>(j, e). case e of
                      GenerateSignedGetUrl k (SignResolves (Some u)) \<Rightarrow>
                        if u = [] then [] else [j\<lparr>j_url := Some u\<rparr>]
                    | _ \<Rightarrow> [])
                 (zip (filter (\<lambda>j. j_file_name j \<noteq> []) (job # rest))
                      (filter (\<lambda>e. case e of GenerateSignedGetUrl k out \<Rightarrow> True | _ \<Rightarrow> False) (e1 @ e2))))) x)"
      using ih by simp
  qed
qed

text \<open>
  Claim C7, as amended. For pending jobs that all have a mime type: the routine
  derives a URL once for each job with a non-empty file name, in the order of the
  jobs, and for no other job; its trace holds nothing but these calls and the audit
  event written out below (action \<open>error\<close>, error name
  \<open>signed_url_generation_failed\<close>), one for each call that threw; and the jobs held by
  the queue module afterwards are those held before plus, once each, every job whose
  call returned a non-empty URL, carrying that URL. For each job, from any state: a
  job with an empty file name is skipped before any call; a job whose signing throws
  is logged and skipped; a job whose signing returns no URL is skipped with no audit
  event; a skipped job leaves the queues as they were and, the trace holding no call
  to the job store, stays pending; a job whose signing returns a URL is passed to
  \<^verbatim>\<open>queueMediaJob\<close> with it and is then held once more than before. The loop
  handles the jobs before a job, then that job once, then the jobs after it.
\<close>

theorem recovery_readmits_each_job:
  assumes "\<forall>j \<in> set jobs. j_mime_type j \<noteq> None"
  shows "concat (map (\<lambda>e. case e of GenerateSignedGetUrl k out \<Rightarrow> [k] | _ \<Rightarrow> []) (snd (recovery w jobs s h)))
       = filter (\<lambda>k. k \<noteq> []) (map j_file_name jobs)
   \<and> (\<forall>e \<in> set (snd (recovery w jobs s h)).
         (\<exists>k out. e = GenerateSignedGetUrl k out)
         \<or> e = LogSystemEvent
                   \<lparr>l_action = ''error'', l_description = None,
                    l_error_name = Some ''signed_url_generation_failed'',
                    l_target_id = None, l_metadata = []\<rparr>)
   \<and> length (filter (\<lambda>e. case e of LogSystemEvent l \<Rightarrow> True | _ \<Rightarrow> False) (snd (recovery w jobs s h)))
       = length (filter (\<lambda>e. case e of GenerateSignedGetUrl k (SignRejects err) \<Rightarrow> True | _ \<Rightarrow> False) (snd (recovery w jobs s h)))
   \<and> (\<forall>x. count_list (heldJobs (fst (recovery w jobs s h))) x =
          count_list (heldJobs s) x
          + count_list
              (concat (map (\<lambda>(j, e). case e of
                      GenerateSignedGetUrl k (SignResolves (Some u)) \<Rightarrow>
                        if u = [] then [] else [j\<lparr>j_url := Some u\<rparr>]
                    | _ \<Rightarrow> [])
                 (zip (filter (\<lambda>j. j_file_name j \<noteq> []) jobs)
                      (filter (\<lambda>e. case e of GenerateSignedGetUrl k out \<Rightarrow> True | _ \<Rightarrow> False) (snd (recovery w jobs s h)))))) x)
   \<and> (\<forall>job \<in> set jobs. \<forall>s' h'.
         (j_file_name job = [] \<longrightarrow> recoverJob w job s' h' = (s', []))
         \<and> (\<forall>err. j_file_name job \<noteq> [] \<and> sign_url w h' (j_file_name job) = SignRejects err
              \<longrightarrow> recoverJob w job s' h' =
                    (s', [GenerateSignedGetUrl (j_file_name job) (SignRejects err),
                          LogSystemEvent
                   \<lparr>l_action = ''error'', l_description = None,
                    l_error_name = Some ''signed_url_generation_failed'',
                    l_target_id = None, l_metadata = []\<rparr>]))
         \<and> (\<forall>u. j_file_name job \<noteq> [] \<and> sign_url w h' (j_file_name job) = SignResolves u
                  \<and> (u = None \<or> u = Some [])
              \<longrightarrow> recoverJob w job s' h' =
                    (s', [GenerateSignedGetUrl (j_file_name job) (SignResolves u)]))
         \<and> (\<forall>u. j_file_name job \<noteq> [] \<and> sign_url w h' (j_file_name job) = SignResolves (Some u)
                  \<and> u \<noteq> []
              \<longrightarrow> recoverJob w job s' h' =
                    (projr (queueMediaJob (job\<lparr>j_url := Some u\<rparr>)
                              (date_now w (h' @ [GenerateSignedGetUrl (j_file_name job)
                                                    (SignResolves (Some u))])) s'),
                     [GenerateSignedGetUrl (j_file_name job) (SignResolves (Some u))])
                  \<and> (\<forall>x. count_list (heldJobs (fst (recoverJob w job s' h'))) x =
                           count_list (heldJobs s') x
                           + (if x = job\<lparr>j_url := Some u\<rparr> then 1 else 0))))
   \<and> (\<forall>pre job post. jobs = pre @ job # post \<longrightarrow>
         recoverJobs w jobs s h =
           (case recoverJobs w pre s h of
              (s1, e1) \<Rightarrow>
                (case recoverJob w job s1 (h @ e1) of
                   (s2, e2) \<Rightarrow>
                     (case recoverJobs w post s2 (h @ e1 @ e2) of
                        (s3, e3) \<Rightarrow> (s3, e1 @ e2 @ e3)))))"
proof -
  have held: "heldJobs (fst (recovery w jobs s h)) = heldJobs (fst (recoverJobs w jobs s h))"
    and evs: "snd (recovery w jobs s h) = snd (recoverJobs w jobs s h)"
    by (simp_all add: recovery_held)
  have a: "concat (map (\<lambda>e. case e of GenerateSignedGetUrl k out \<Rightarrow> [k] | _ \<Rightarrow> []) (snd (recovery w jobs s h)))
       = filter (\<lambda>k. k \<noteq> []) (map j_file_name jobs)
   \<and> (\<forall>e \<in> set (snd (recovery w jobs s h)).
         (\<exists>k out. e = GenerateSignedGetUrl k out)
         \<or> e = LogSystemEvent
                   \<lparr>l_action = ''error'', l_description = None,
                    l_error_name = Some ''signed_url_generation_failed'',
                    l_target_id = None, l_metadata = []\<rparr>)
   \<and> length (filter (\<lambda>e. case e of LogSystemEvent l \<Rightarrow> True | _ \<Rightarrow> False) (snd (recovery w jobs s h)))
       = length (filter (\<lambda>e. case e of GenerateSignedGetUrl k (SignRejects err) \<Rightarrow> True | _ \<Rightarrow> False) (snd (recovery w jobs s h)))
   \<and> (\<forall>x. count_list (heldJobs (fst (recovery w jobs s h))) x =
          count_list (heldJobs s) x
          + count_list
              (concat (map (\<lambda>(j, e). case e of
                      GenerateSignedGetUrl k (SignResolves (Some u)) \<Rightarrow>
                        if u = [] then [] else [j\<lparr>j_url := Some u\<rparr>]
                    | _ \<Rightarrow> [])
                 (zip (filter (\<lambda>j. j_file_name j \<noteq> []) jobs)
                      (filter (\<lambda>e. case e of GenerateSignedGetUrl k out \<Rightarrow> True | _ \<Rightarrow> False) (snd (recovery w jobs s h)))))) x)"
    unfolding held evs using assms by (rule recoverJobs_loop)
  have b: "(\<forall>job \<in> set jobs. \<forall>s' h'.
         (j_file_name job = [] \<longrightarrow> recoverJob w job s' h' = (s', []))
         \<and> (\<forall>err. j_file_name job \<noteq> [] \<and> sign_url w h' (j_file_name job) = SignRejects err
              \<longrightarrow> recoverJob w job s' h' =
                    (s', [GenerateSignedGetUrl (j_file_name job) (SignRejects err),
                          LogSystemEvent
                   \<lparr>l_action = ''error'', l_description = None,
                    l_error_name = Some ''signed_url_generation_failed'',
                    l_target_id = None, l_metadata = []\<rparr>]))
         \<and> (\<forall>u. j_file_name job \<noteq> [] \<and> sign_url w h' (j_file_name job) = SignResolves u
                  \<and> (u = None \<or> u = Some [])
              \<longrightarrow> recoverJob w job s' h' =
                    (s', [GenerateSignedGetUrl (j_file_name job) (SignResolves u)]))
         \<and> (\<forall>u. j_file_name job \<noteq> [] \<and> sign_url w h' (j_file_name job) = SignResolves (Some u)
                  \<and> u \<noteq> []
              \<longrightarrow> recoverJob w job s' h' =
                    (projr (queueMediaJob (job\<lparr>j_url := Some u\<rparr>)
                              (date_now w (h' @ [GenerateSignedGetUrl (j_file_name job)
                                                    (SignResolves (Some u))])) s'),
                     [GenerateSignedGetUrl (j_file_name job) (SignResolves (Some u))])
                  \<and> (\<forall>x. count_list (heldJobs (fst (recoverJob w job s' h'))) x =
                           count_list (heldJobs s') x
                           + (if x = job\<lparr>j_url := Some u\<rparr> then 1 else 0))))"
    using assms recoverJob_outcomes by blast
  have c: "(\<forall>pre job post. jobs = pre @ job # post \<longrightarrow>
         recoverJobs w jobs s h =
           (case recoverJobs w pre s h of
              (s1, e1) \<Rightarrow>
                (case recoverJob w job s1 (h @ e1) of
                   (s2, e2) \<Rightarrow>
                     (case recoverJobs w post s2 (h @ e1 @ e2) of
                        (s3, e3) \<Rightarrow> (s3, e1 @ e2 @ e3)))))"
    by (simp add: recoverJobs_append split: prod.split)
  from a b c show ?thesis
    by (intro conjI) (elim conjE, assumption)+
qed

lemma sample_mime [simp]:
  "j_mime_type sampleVideo = Some ''video/mp4''" "j_mime_type sampleImage = Some ''image/jpeg''"
  by (simp_all add: sampleVideo_def sampleImage_def)

lemma scanningVideo_reachable: "scanningVideo \<in> reachable"
proof -
  define s1 where "s1 = initial\<lparr>videoQueue := [sampleVideo], firstVideoTime := Some 1000,
                                videoTimer := Some 3000\<rparr>"
  define s2 where "s2 = initial\<lparr>videoScanning := True, videoScans := [[sampleVideo]]\<rparr>"
  have e1: "queueMediaJob sampleVideo 1000 initial = Inr s1"
    by (simp add: queueMediaJob_def startsWith_def scheduleFlush_def firstTime_def Let_def
        initial_def s1_def VIDEO_MAX_WAIT_def VIDEO_BATCH_SIZE_def VIDEO_INTERVAL_def)
  have e2: "videoTimerFired s1 = s2"
    by (simp add: videoTimerFired_def maybeFlushVideos_def Let_def s1_def s2_def initial_def
        VIDEO_BATCH_SIZE_def)
  have e3: "queueMediaJob sampleVideo 5000 s2 = Inr scanningVideo"
    by (simp add: queueMediaJob_def startsWith_def scheduleFlush_def firstTime_def Let_def
        initial_def s2_def scanningVideo_def VIDEO_MAX_WAIT_def VIDEO_BATCH_SIZE_def
        VIDEO_INTERVAL_def)
  have r1: "s1 \<in> reachable"
    using reachable.start e1 by (rule reachable.enqueue)
  have "videoTimer s1 \<noteq> None"
    by (simp add: s1_def)
  with r1 have "videoTimerFired s1 \<in> reachable"
    by (rule reachable.video_timer)
  then have r2: "s2 \<in> reachable"
    by (simp add: e2)
  from r2 e3 show ?thesis
    by (rule reachable.enqueue)
qed

lemma scanningBoth_reachable: "scanningBoth \<in> reachable"
proof -
  define t1 where "t1 = scanningVideo\<lparr>imageQueue := [sampleImage], firstImageTime := Some 5500,
                                      imageTimer := Some 2000\<rparr>"
  define t2 where "t2 = scanningVideo\<lparr>imageScanning := True, imageScans := [[sampleImage]]\<rparr>"
  have e1: "queueMediaJob sampleImage 5500 scanningVideo = Inr t1"
    by (simp add: queueMediaJob_def startsWith_def scheduleFlush_def firstTime_def Let_def
        scanningVideo_def initial_def t1_def IMAGE_MAX_WAIT_def IMAGE_BATCH_SIZE_def
        IMAGE_INTERVAL_def)
  have e2: "imageTimerFired t1 = t2"
    by (simp add: imageTimerFired_def maybeFlushImages_def Let_def t1_def t2_def
        scanningVideo_def initial_def IMAGE_BATCH_SIZE_def)
  have e3: "queueMediaJob sampleImage 6000 t2 = Inr scanningBoth"
    by (simp add: queueMediaJob_def startsWith_def scheduleFlush_def firstTime_def Let_def
        scanningBoth_def scanningVideo_def initial_def t2_def IMAGE_MAX_WAIT_def
        IMAGE_BATCH_SIZE_def IMAGE_INTERVAL_def)
  have r1: "t1 \<in> reachable"
    using scanningVideo_reachable e1 by (rule reachable.enqueue)
  have "imageTimer t1 \<noteq> None"
    by (simp add: t1_def)
  with r1 have "imageTimerFired t1 \<in> reachable"
    by (rule reachable.image_timer)
  then have r2: "t2 \<in> reachable"
    by (simp add: e2)
  from r2 e3 show ?thesis
    by (rule reachable.enqueue)
qed

text \<open>
  An image and a video are being scanned while one more of each waits with its timer
  pending: the state is reachable, flush requests and a further job start no second
  scan, settling the image scan sets the timer anew, and settling the video scan after
  the maximal wait starts the scan of the waiting video.
\<close>

theorem single_flight_per_class_witness:
  "scanningBoth \<in> reachable
   \<and> imageScans scanningBoth = [[sampleImage]] \<and> videoScans scanningBoth = [[sampleVideo]]
   \<and> imageQueue scanningBoth = [sampleImage] \<and> videoQueue scanningBoth = [sampleVideo]
   \<and> imageTimer scanningBoth = Some 2000 \<and> videoTimer scanningBoth = Some 3000
   \<and> maybeFlushImages scanningBoth = scanningBoth
   \<and> maybeFlushVideos scanningBoth = scanningBoth
   \<and> imageScans (scheduleFlush False 20000 scanningBoth) = [[sampleImage]]
   \<and> videoScans (scheduleFlush True 20000 scanningBoth) = [[sampleVideo]]
   \<and> imageScans (imageTimerFired scanningBoth) = [[sampleImage]]
   \<and> videoScans (videoTimerFired scanningBoth) = [[sampleVideo]]
   \<and> queueMediaJob sampleVideo 20000 scanningBoth =
       Inr (scanningBoth\<lparr>videoQueue := [sampleVideo, sampleVideo], videoTimer := None,
                         firstVideoTime := None\<rparr>)
   \<and> imageScanSettled [sampleImage] 15000 scanningBoth =
       scanningBoth\<lparr>imageScanning := False, imageTimer := Some 1000, imageScans := []\<rparr>
   \<and> videoScanSettled [sampleVideo] 20000 scanningBoth =
       scanningBoth\<lparr>videoQueue := [], videoScanning := True, videoTimer := None,
                    firstVideoTime := None, videoScans := [[sampleVideo]]\<rparr>"
proof -
  note r = scanningBoth_reachable
  note t = single_flight_per_class [OF r]
  have a: "imageScans scanningBoth = [[sampleImage]]" "videoScans scanningBoth = [[sampleVideo]]"
    "imageQueue scanningBoth = [sampleImage]" "videoQueue scanningBoth = [sampleVideo]"
    "imageTimer scanningBoth = Some 2000" "videoTimer scanningBoth = Some 3000"
    "firstImageTime scanningBoth = Some 6000" "firstVideoTime scanningBoth = Some 5000"
    by (simp_all add: scanningBoth_def scanningVideo_def initial_def)
  have ne: "imageScans scanningBoth \<noteq> []" "videoScans scanningBoth \<noteq> []"
    "[sampleImage] \<in> set (imageScans scanningBoth)"
    "[sampleVideo] \<in> set (videoScans scanningBoth)"
    by (simp_all add: a)
  from t ne have b: "maybeFlushImages scanningBoth = scanningBoth"
    "maybeFlushVideos scanningBoth = scanningBoth"
    "imageScans (scheduleFlush False 20000 scanningBoth) = imageScans scanningBoth"
    "videoScans (scheduleFlush True 20000 scanningBoth) = videoScans scanningBoth"
    "imageScans (imageTimerFired scanningBoth) = imageScans scanningBoth"
    "videoScans (videoTimerFired scanningBoth) = videoScans scanningBoth"
    by blast+
  have q: "queueMediaJob sampleVideo 20000 scanningBoth =
       Inr (scanningBoth\<lparr>videoQueue := [sampleVideo, sampleVideo], videoTimer := None,
                         firstVideoTime := None\<rparr>)"
    by (simp add: queueMediaJob_def startsWith_def scheduleFlush_def firstTime_def Let_def
        maybeFlushVideos_def scanningBoth_def scanningVideo_def initial_def VIDEO_MAX_WAIT_def
        VIDEO_BATCH_SIZE_def VIDEO_INTERVAL_def)
  from t ne(3) have "imageScanSettled [sampleImage] 15000 scanningBoth =
             (if imageQueue scanningBoth = []
              then scanningBoth\<lparr>imageScanning := False, imageScans := []\<rparr>
              else if 10000 \<le> 15000 - (case firstImageTime scanningBoth of None \<Rightarrow> 15000
                                             | Some t \<Rightarrow> if t = 0 then 15000 else t)
                      \<or> 50 \<le> length (imageQueue scanningBoth)
              then scanningBoth\<lparr>imageQueue := drop 50 (imageQueue scanningBoth),
                     imageScanning := True,
                     imageTimer := None, firstImageTime := None,
                     imageScans := [take 50 (imageQueue scanningBoth)]\<rparr>
              else scanningBoth\<lparr>imageScanning := False,
                     imageTimer :=
                       Some (min (10000 - (15000 - (case firstImageTime scanningBoth of
                                                      None \<Rightarrow> 15000
                                                    | Some t \<Rightarrow> if t = 0 then 15000 else t)))
                                 2000),
                     firstImageTime :=
                       Some (case firstImageTime scanningBoth of None \<Rightarrow> 15000
                             | Some t \<Rightarrow> if t = 0 then 15000 else t),
                     imageScans := []\<rparr>)"
    by blast
  then have i: "imageScanSettled [sampleImage] 15000 scanningBoth =
       scanningBoth\<lparr>imageScanning := False, imageTimer := Some 1000, imageScans := []\<rparr>"
    by (simp add: a)
  from t ne(4) have "videoScanSettled [sampleVideo] 20000 scanningBoth =
             (if videoQueue scanningBoth = []
              then scanningBoth\<lparr>videoScanning := False, videoScans := []\<rparr>
              else if 10000 \<le> 20000 - (case firstVideoTime scanningBoth of None \<Rightarrow> 20000
                                             | Some t \<Rightarrow> if t = 0 then 20000 else t)
                      \<or> 10 \<le> length (videoQueue scanningBoth)
              then scanningBoth\<lparr>videoQueue := drop 10 (videoQueue scanningBoth),
                     videoScanning := True,
                     videoTimer := None, firstVideoTime := None,
                     videoScans := [take 10 (videoQueue scanningBoth)]\<rparr>
              else scanningBoth\<lparr>videoScanning := False,
                     videoTimer :=
                       Some (min (10000 - (20000 - (case firstVideoTime scanningBoth of
                                                      None \<Rightarrow> 20000
                                                    | Some t \<Rightarrow> if t = 0 then 20000 else t)))
                                 3000),
                     firstVideoTime :=
                       Some (case firstVideoTime scanningBoth of None \<Rightarrow> 20000
                             | Some t \<Rightarrow> if t = 0 then 20000 else t),
                     videoScans := []\<rparr>)"
    by blast
  then have v: "videoScanSettled [sampleVideo] 20000 scanningBoth =
       scanningBoth\<lparr>videoQueue := [], videoScanning := True, videoTimer := None,
                    firstVideoTime := None, videoScans := [[sampleVideo]]\<rparr>"
    by (simp add: a)
  from r a(1-6) b q i v show ?thesis
    by (simp only: a(1,2))
qed

text \<open>
  An image enqueued into the empty module.
\<close>

theorem enqueue_appends_one_job_witness:
  "j_mime_type sampleImage = Some ''image/jpeg''
   \<and> queueMediaJob sampleImage 1000 initial =
       Inr (initial\<lparr>imageQueue := [sampleImage], firstImageTime := Some 1000,
                    imageTimer := Some 2000\<rparr>)
   \<and> videoQueue (projr (queueMediaJob sampleImage 1000 initial)) = []"
proof -
  have a: "j_mime_type sampleImage = Some ''image/jpeg''"
    by simp
  have b: "queueMediaJob sampleImage 1000 initial =
       Inr (initial\<lparr>imageQueue := [sampleImage], firstImageTime := Some 1000,
                    imageTimer := Some 2000\<rparr>)"
    by (simp add: queueMediaJob_def startsWith_def scheduleFlush_def firstTime_def Let_def
        initial_def IMAGE_MAX_WAIT_def IMAGE_BATCH_SIZE_def IMAGE_INTERVAL_def)
  from enqueue_appends_one_job [OF a, of 1000 initial] a b show ?thesis
    by (auto simp: startsWith_def initial_def)
qed

lemma videos_waiting_reachable:
  "n < 9 \<Longrightarrow>
   initial\<lparr>videoQueue := replicate (Suc n) sampleVideo, firstVideoTime := Some 1000,
           videoTimer := Some 3000\<rparr> \<in> reachable"
proof (induction n)
  case 0
  have "queueMediaJob sampleVideo 1000 initial =
      Inr (initial\<lparr>videoQueue := replicate (Suc 0) sampleVideo, firstVideoTime := Some 1000,
                   videoTimer := Some 3000\<rparr>)"
    by (simp add: queueMediaJob_def startsWith_def scheduleFlush_def firstTime_def Let_def
        initial_def VIDEO_MAX_WAIT_def VIDEO_BATCH_SIZE_def VIDEO_INTERVAL_def)
  with reachable.start show ?case
    by (rule reachable.enqueue)
next
  case (Suc n)
  then have r: "initial\<lparr>videoQueue := replicate (Suc n) sampleVideo, firstVideoTime := Some 1000,
           videoTimer := Some 3000\<rparr> \<in> reachable"
    by simp
  have "replicate n sampleVideo @ [sampleVideo] = replicate (Suc n) sampleVideo"
    by (simp add: replicate_append_same)
  then have "queueMediaJob sampleVideo 1000
       (initial\<lparr>videoQueue := replicate (Suc n) sampleVideo, firstVideoTime := Some 1000,
                videoTimer := Some 3000\<rparr>) =
      Inr (initial\<lparr>videoQueue := replicate (Suc (Suc n)) sampleVideo,
                   firstVideoTime := Some 1000, videoTimer := Some 3000\<rparr>)"
    using Suc.prems
    by (simp add: queueMediaJob_def startsWith_def scheduleFlush_def firstTime_def Let_def
        initial_def VIDEO_MAX_WAIT_def VIDEO_BATCH_SIZE_def VIDEO_INTERVAL_def)
  with r show ?case
    by (rule reachable.enqueue)
qed

text \<open>
  Claim C10 as stated fails: with nine videos waiting, enqueueing a tenth reaches the
  batch size, and the flush triggered inside the call removes all ten from the queue.
\<close>

theorem enqueue_flush_counterexample:
  "nineVideos \<in> reachable
   \<and> length (videoQueue nineVideos) = 9
   \<and> videoQueue (projr (queueMediaJob sampleVideo 1000 nineVideos)) = []
   \<and> videoScans (projr (queueMediaJob sampleVideo 1000 nineVideos)) = [replicate 10 sampleVideo]"
proof -
  have "nineVideos \<in> reachable"
    using videos_waiting_reachable [of 8] by (simp add: nineVideos_def eval_nat_numeral)
  moreover have "length (videoQueue nineVideos) = 9"
    by (simp add: nineVideos_def)
  moreover have "queueMediaJob sampleVideo 1000 nineVideos =
      Inr (scheduleFlush True 1000 (nineVideos\<lparr>videoQueue := videoQueue nineVideos @ [sampleVideo]\<rparr>))"
    by (simp add: queueMediaJob_def startsWith_def)
  moreover have "videoQueue nineVideos @ [sampleVideo] = replicate 10 sampleVideo"
    by (simp add: nineVideos_def eval_nat_numeral)
  ultimately show ?thesis
    by (simp add: scheduleFlush_def maybeFlushVideos_def Let_def firstTime_def nineVideos_def
        initial_def VIDEO_BATCH_SIZE_def VIDEO_MAX_WAIT_def)
qed

lemma silent_sign [simp]: "sign_url silentWorld h k = SignResolves (Some (''https://signed/'' @ k))"
  by (simp add: silentWorld_def sampleWorld_def)

lemma silent_now [simp]: "date_now silentWorld h = 1000"
  by (simp add: silentWorld_def sampleWorld_def)

lemma picky_sign [simp]:
  "sign_url pickyWorld h ''images/jo/job-1.jpeg''
     = SignResolves (Some ''https://signed/images/jo/job-1.jpeg'')"
  "sign_url pickyWorld h ''videos/jo/job-2.mp4'' = SignRejects (Error ''credentials missing'')"
  by (simp_all add: pickyWorld_def)

lemma picky_now [simp]: "date_now pickyWorld h = 1000"
  by (simp add: pickyWorld_def sampleWorld_def)

text \<open>
  Two pending jobs, the signing of the second of which throws: the image is
  re-admitted with its new URL, the failure for the video is logged, and the video is
  not held.
\<close>

theorem recovery_readmits_each_job_witness:
  "j_mime_type sampleImage = Some ''image/jpeg'' \<and> j_mime_type sampleVideo = Some ''video/mp4''
   \<and> recovery pickyWorld [sampleImage, sampleVideo] initial [] =
       (initial\<lparr>imageQueue := [sampleImage\<lparr>j_url := Some ''https://signed/images/jo/job-1.jpeg''\<rparr>],
                firstImageTime := Some 1000, imageTimer := Some 2000\<rparr>,
        [GenerateSignedGetUrl ''images/jo/job-1.jpeg''
           (SignResolves (Some ''https://signed/images/jo/job-1.jpeg'')),
         GenerateSignedGetUrl ''videos/jo/job-2.mp4'' (SignRejects (Error ''credentials missing'')),
         LogSystemEvent
           \<lparr>l_action = ''error'', l_description = None,
            l_error_name = Some ''signed_url_generation_failed'',
            l_target_id = None, l_metadata = []\<rparr>])
   \<and> concat (map (\<lambda>e. case e of GenerateSignedGetUrl k out \<Rightarrow> [k] | _ \<Rightarrow> [])
               (snd (recovery pickyWorld [sampleImage, sampleVideo] initial [])))
       = [''images/jo/job-1.jpeg'', ''videos/jo/job-2.mp4'']
   \<and> heldJobs (fst (recovery pickyWorld [sampleImage, sampleVideo] initial []))
       = [sampleImage\<lparr>j_url := Some ''https://signed/images/jo/job-1.jpeg''\<rparr>]"
proof -
  have m: "\<forall>j \<in> set [sampleImage, sampleVideo]. j_mime_type j \<noteq> None"
    by simp
  note t = recovery_readmits_each_job [OF m, of pickyWorld initial "[]"]
  have f: "j_file_name sampleImage = ''images/jo/job-1.jpeg''"
    "j_file_name sampleVideo = ''videos/jo/job-2.mp4''"
    by (simp_all add: sampleImage_def sampleVideo_def)
  from t have k: "concat (map (\<lambda>e. case e of GenerateSignedGetUrl k out \<Rightarrow> [k] | _ \<Rightarrow> [])
               (snd (recovery pickyWorld [sampleImage, sampleVideo] initial [])))
       = filter (\<lambda>k. k \<noteq> []) (map j_file_name [sampleImage, sampleVideo])"
    by (rule conjunct1)
  have q: "queueMediaJob (sampleImage\<lparr>j_url := Some ''https://signed/images/jo/job-1.jpeg''\<rparr>)
             1000 initial =
       Inr (initial\<lparr>imageQueue := [sampleImage\<lparr>j_url := Some ''https://signed/images/jo/job-1.jpeg''\<rparr>],
                    firstImageTime := Some 1000, imageTimer := Some 2000\<rparr>)"
    by (simp add: queueMediaJob_def startsWith_def scheduleFlush_def firstTime_def Let_def
        initial_def IMAGE_MAX_WAIT_def IMAGE_BATCH_SIZE_def IMAGE_INTERVAL_def)
  have j1: "recoverJob pickyWorld sampleImage initial [] =
       (initial\<lparr>imageQueue := [sampleImage\<lparr>j_url := Some ''https://signed/images/jo/job-1.jpeg''\<rparr>],
                firstImageTime := Some 1000, imageTimer := Some 2000\<rparr>,
        [GenerateSignedGetUrl ''images/jo/job-1.jpeg''
           (SignResolves (Some ''https://signed/images/jo/job-1.jpeg''))])"
    by (simp add: recoverJob_def Let_def f falsy_str_def q)
  have j2: "recoverJob pickyWorld sampleVideo s h =
       (s, [GenerateSignedGetUrl ''videos/jo/job-2.mp4'' (SignRejects (Error ''credentials missing'')),
            LogSystemEvent
           \<lparr>l_action = ''error'', l_description = None,
            l_error_name = Some ''signed_url_generation_failed'',
            l_target_id = None, l_metadata = []\<rparr>])" for s h
    by (simp add: recoverJob_def Let_def f signFailed_def)
  have r: "recovery pickyWorld [sampleImage, sampleVideo] initial [] =
       (initial\<lparr>imageQueue := [sampleImage\<lparr>j_url := Some ''https://signed/images/jo/job-1.jpeg''\<rparr>],
                firstImageTime := Some 1000, imageTimer := Some 2000\<rparr>,
        [GenerateSignedGetUrl ''images/jo/job-1.jpeg''
           (SignResolves (Some ''https://signed/images/jo/job-1.jpeg'')),
         GenerateSignedGetUrl ''videos/jo/job-2.mp4'' (SignRejects (Error ''credentials missing'')),
         LogSystemEvent
           \<lparr>l_action = ''error'', l_description = None,
            l_error_name = Some ''signed_url_generation_failed'',
            l_target_id = None, l_metadata = []\<rparr>])"
    by (simp add: recovery_def j1 j2 Let_def)
       (simp add: scheduleFlush_def firstTime_def Let_def initial_def IMAGE_MAX_WAIT_def
          IMAGE_BATCH_SIZE_def IMAGE_INTERVAL_def)
  have h: "heldJobs (fst (recovery pickyWorld [sampleImage, sampleVideo] initial []))
       = [sampleImage\<lparr>j_url := Some ''https://signed/images/jo/job-1.jpeg''\<rparr>]"
    unfolding r by (simp add: heldJobs_def initial_def)
  have k': "concat (map (\<lambda>e. case e of GenerateSignedGetUrl k out \<Rightarrow> [k] | _ \<Rightarrow> [])
               (snd (recovery pickyWorld [sampleImage, sampleVideo] initial [])))
       = [''images/jo/job-1.jpeg'', ''videos/jo/job-2.mp4'']"
    using k by (simp add: f)
  from r h k' show ?thesis
    by simp
qed

text \<open>
  Claim C7 as stated fails: a pending job with an empty file name is not re-admitted,
  although no URL regeneration failed (none was attempted), and nothing is logged.
\<close>

theorem unnamed_job_counterexample:
  "sign_url silentWorld [] (j_file_name unnamedJob) = SignResolves (Some ''https://signed/'')
   \<and> recovery silentWorld [unnamedJob] initial [] = (initial, [])
   \<and> heldJobs (fst (recovery silentWorld [unnamedJob] initial [])) = []"
  by (simp add: unnamedJob_def recovery_def recoverJob_def initial_def heldJobs_def)

end
